theory Spec2Isabelle
  imports Complex_Main
begin

section \<open>Ristretto quantization: the calibration driver of quantization.cpp\<close>

text \<open>
  The theory embeds \<^verbatim>\<open>src/caffe/ristretto/quantization.cpp\<close>. The class
  \<^verbatim>\<open>Quantization\<close> becomes a record of its members, every member function a
  function on that record. The inference engine (\<^verbatim>\<open>Net<float>\<close>), the protobuf
  reader and writer, the file system and the device layer are outside this file; they
  enter as the fields of an \<open>engine\<close> record.

  Conventions.
  \<^item> A C++ \<^verbatim>\<open>int\<close> is an \<open>int\<close> of HOL; where the source subtracts or casts, the
    model checks the 32-bit range and stops with a fault when it is left.
  \<^item> An operation whose behaviour C++ leaves undefined (an unchecked \<^verbatim>\<open>operator[]\<close>
    past the end of a vector, a float-to-int cast of a value that is not finite,
    signed overflow) is a \<open>fault\<close>, as are \<^verbatim>\<open>LOG(FATAL)\<close> and a thrown exception.
    The model stops at the first of them.
  \<^item> The layer statistics (\<^verbatim>\<open>vector<float>\<close>) are read as the real numbers they
    denote; \<^verbatim>\<open>log2\<close> is made partial by hand. Scores are kept abstract: their
    addition and division are fields of the engine, so nothing is assumed about
    rounding.
  \<^item> \<^verbatim>\<open>LOG(INFO)\<close> output and the variables that only feed it are left out.
\<close>

subsection \<open>Faults\<close>

datatype fault =
    MissingWritePermissions
  | UnknownTrimmingMode string
  | BadLexicalCast string
  | OutOfRange int
  | FloatToIntUndefined
  | SignedOverflow
  | NoGpu
  | NotFound string
  | ConfigurationError

text \<open>
  \<open>MissingWritePermissions\<close> and \<open>UnknownTrimmingMode\<close> are the two \<^verbatim>\<open>LOG(FATAL)\<close>
  of the file, \<open>BadLexicalCast\<close> is the exception of \<^verbatim>\<open>boost::lexical_cast\<close>,
  \<open>NoGpu\<close> is the fatal \<^verbatim>\<open>NO_GPU\<close> of a CPU-only build,
  \<open>OutOfRange i\<close> is an unchecked vector access at index \<open>i\<close> outside the vector.
  \<open>NotFound\<close> and \<open>ConfigurationError\<close> are the conditions that the specification
  names for an unknown layer name and for a rejected configuration; no function below
  produces them.
\<close>

subsection \<open>Strings and vectors\<close>

primrec starts_with :: "string \<Rightarrow> string \<Rightarrow> bool" where
  "starts_with s [] = True"
| "starts_with s (c # t) = (case s of [] \<Rightarrow> False | d # s' \<Rightarrow> d = c \<and> starts_with s' t)"

text \<open>\<^verbatim>\<open>s.find(t) != string::npos\<close>: \<open>t\<close> occurs in \<open>s\<close>.\<close>

primrec contains :: "string \<Rightarrow> string \<Rightarrow> bool" where
  "contains [] t = (t = [])"
| "contains (c # s) t = (starts_with (c # s) t \<or> contains s t)"

text \<open>\<^verbatim>\<open>find(v.begin(), v.end(), x) - v.begin()\<close>: the index of the first \<open>x\<close>, the size
  of the vector when there is none.\<close>

primrec find_pos :: "'a list \<Rightarrow> 'a \<Rightarrow> nat" where
  "find_pos [] x = 0"
| "find_pos (y # ys) x = (if y = x then 0 else Suc (find_pos ys x))"

text \<open>\<^verbatim>\<open>v[i]\<close> with an \<^verbatim>\<open>int\<close> index: no bounds check in the source.\<close>

definition vec_at :: "'a list \<Rightarrow> int \<Rightarrow> fault + 'a" where
  "vec_at v i = (if 0 \<le> i \<and> nat i < length v then Inr (v ! nat i) else Inl (OutOfRange i))"

definition in_int_range :: "int \<Rightarrow> bool" where
  "in_int_range i = (- 2147483648 \<le> i \<and> i \<le> 2147483647)"

text \<open>\<^verbatim>\<open>a - b\<close> on \<^verbatim>\<open>int\<close>.\<close>

definition int_sub :: "int \<Rightarrow> int \<Rightarrow> fault + int" where
  "int_sub a b = (if in_int_range (a - b) then Inr (a - b) else Inl SignedOverflow)"

subsection \<open>The network description\<close>

text \<open>
  The message types come from \<^verbatim>\<open>caffe.proto\<close>, which is not part of the file. The model
  keeps the fields that the file reads or writes; the others are carried along as
  \<open>rest\<close>, their text-format serialisation. An optional field that is not set is \<open>None\<close>;
  a field that is set holds the \<^verbatim>\<open>int\<close> that its setter was given.
\<close>

record quantization_parameter =
  fl_params :: "int option"
  bw_params :: "int option"
  fl_layer_in :: "int option"
  bw_layer_in :: "int option"
  fl_layer_out :: "int option"
  bw_layer_out :: "int option"
  qp_rest :: string

record layer_parameter =
  name :: string
  type :: string
  quantization_param :: "quantization_parameter option"
  layer_rest :: string

datatype phase = TRAIN | TEST

record net_state =
  phase :: "phase option"
  state_rest :: string

record net_parameter =
  layer :: "layer_parameter list"
  state :: "net_state option"
  net_rest :: string

definition empty_quantization_parameter :: quantization_parameter where
  "empty_quantization_parameter =
     \<lparr>fl_params = None, bw_params = None, fl_layer_in = None, bw_layer_in = None,
      fl_layer_out = None, bw_layer_out = None, qp_rest = []\<rparr>"

text \<open>\<^verbatim>\<open>mutable_quantization_param()\<close>: the sub-message, created empty when absent.\<close>

definition mutable_quantization_param :: "layer_parameter \<Rightarrow> quantization_parameter" where
  "mutable_quantization_param l =
     (case quantization_param l of None \<Rightarrow> empty_quantization_parameter | Some qp \<Rightarrow> qp)"

definition set_type :: "string \<Rightarrow> layer_parameter \<Rightarrow> layer_parameter" where
  "set_type t l = l\<lparr>type := t\<rparr>"

definition set_fl_params :: "int \<Rightarrow> layer_parameter \<Rightarrow> layer_parameter" where
  "set_fl_params v l =
     l\<lparr>quantization_param := Some ((mutable_quantization_param l)\<lparr>fl_params := Some v\<rparr>)\<rparr>"

definition set_bw_params :: "int \<Rightarrow> layer_parameter \<Rightarrow> layer_parameter" where
  "set_bw_params v l =
     l\<lparr>quantization_param := Some ((mutable_quantization_param l)\<lparr>bw_params := Some v\<rparr>)\<rparr>"

definition set_fl_layer_in :: "int \<Rightarrow> layer_parameter \<Rightarrow> layer_parameter" where
  "set_fl_layer_in v l =
     l\<lparr>quantization_param := Some ((mutable_quantization_param l)\<lparr>fl_layer_in := Some v\<rparr>)\<rparr>"

definition set_bw_layer_in :: "int \<Rightarrow> layer_parameter \<Rightarrow> layer_parameter" where
  "set_bw_layer_in v l =
     l\<lparr>quantization_param := Some ((mutable_quantization_param l)\<lparr>bw_layer_in := Some v\<rparr>)\<rparr>"

definition set_fl_layer_out :: "int \<Rightarrow> layer_parameter \<Rightarrow> layer_parameter" where
  "set_fl_layer_out v l =
     l\<lparr>quantization_param := Some ((mutable_quantization_param l)\<lparr>fl_layer_out := Some v\<rparr>)\<rparr>"

definition set_bw_layer_out :: "int \<Rightarrow> layer_parameter \<Rightarrow> layer_parameter" where
  "set_bw_layer_out v l =
     l\<lparr>quantization_param := Some ((mutable_quantization_param l)\<lparr>bw_layer_out := Some v\<rparr>)\<rparr>"

subsection \<open>The object and its lookups\<close>

text \<open>
  The members of \<^verbatim>\<open>Quantization\<close>. A member \<^verbatim>\<open>x_\<close> is the field \<open>x_'\<close>, since a
  name of HOL cannot end with an underscore. A member that the constructor leaves
  uninitialised is \<open>None\<close>. The field \<open>trace\<close> is not a member: it records, in order,
  what the run did to the world outside the object.
\<close>

datatype net_source = FromFile string | FromParam net_parameter

datatype device = CPU | GPU int

datatype event =
    WriteProbed string
  | DeviceSet device
  | NetCreated net_source
  | WeightsCopied string
  | ForwardPass
  | RangeQueried
  | NetDeleted
  | DescriptionWritten net_parameter string

record 'f quantization =
  model_' :: string
  weights_' :: string
  model_quantized_' :: string
  iterations_' :: int
  trimming_mode_' :: string
  bitwidth_weights_' :: int
  bitwidth_activations_' :: int
  gpus_' :: string
  exp_bits_' :: int
  layer_names_' :: "string list"
  max_in_' :: "real list"
  max_out_' :: "real list"
  max_params_' :: "real list"
  il_in_' :: "int list"
  il_out_' :: "int list"
  il_params_' :: "int list"
  test_score_baseline_' :: "'f option"
  bw_conv_params_' :: "int option"
  bw_fc_params_' :: "int option"
  bw_in_' :: "int option"
  bw_out_' :: "int option"
  trace :: "event list"

definition Quantization ::
  "string \<Rightarrow> string \<Rightarrow> string \<Rightarrow> int \<Rightarrow> string \<Rightarrow> int \<Rightarrow> int \<Rightarrow> string \<Rightarrow> 'f quantization" where
  "Quantization model weights model_quantized iterations trimming_mode bitwidth_weights
       bitwidth_activations gpus =
     \<lparr>model_' = model, weights_' = weights, model_quantized_' = model_quantized,
      iterations_' = iterations, trimming_mode_' = trimming_mode,
      bitwidth_weights_' = bitwidth_weights, bitwidth_activations_' = bitwidth_activations,
      gpus_' = gpus, exp_bits_' = 4, layer_names_' = [], max_in_' = [], max_out_' = [],
      max_params_' = [], il_in_' = [], il_out_' = [], il_params_' = [],
      test_score_baseline_' = None, bw_conv_params_' = None, bw_fc_params_' = None,
      bw_in_' = None, bw_out_' = None, trace = []\<rparr>"

definition GetIntegerLengthParams :: "'f quantization \<Rightarrow> string \<Rightarrow> fault + int" where
  "GetIntegerLengthParams q layer_name =
     (let pos = int (find_pos (layer_names_' q) layer_name) in vec_at (il_params_' q) pos)"

definition GetIntegerLengthIn :: "'f quantization \<Rightarrow> string \<Rightarrow> fault + int" where
  "GetIntegerLengthIn q layer_name =
     (let pos = int (find_pos (layer_names_' q) layer_name) in vec_at (il_in_' q) pos)"

definition GetIntegerLengthOut :: "'f quantization \<Rightarrow> string \<Rightarrow> fault + int" where
  "GetIntegerLengthOut q layer_name =
     (let pos = int (find_pos (layer_names_' q) layer_name) in vec_at (il_out_' q) pos)"

subsection \<open>Editing the description\<close>

text \<open>
  The two blocks of \<^verbatim>\<open>EditNetDescriptionDynamicFixedPoint\<close> for a convolution layer and
  for an inner product layer differ in the type they set and in the bit-width of the
  parameters; \<open>quantize_parameters\<close> and \<open>quantize_activations\<close> are their two inner
  \<^verbatim>\<open>if\<close> bodies, with both as arguments. The statements are kept in the order of the
  source: the type is set first, each fractional length is computed from the lookup by
  the layer's name and stored, then the bit-width is stored.
\<close>

definition quantize_parameters ::
  "'f quantization \<Rightarrow> string \<Rightarrow> int \<Rightarrow> layer_parameter \<Rightarrow> fault + layer_parameter" where
  "quantize_parameters q new_type bw l =
     (let l1 = set_type new_type l in
      case GetIntegerLengthParams q (name l1) of
        Inl e \<Rightarrow> Inl e
      | Inr il \<Rightarrow>
          (case int_sub bw il of
             Inl e \<Rightarrow> Inl e
           | Inr fl \<Rightarrow> Inr (set_bw_params bw (set_fl_params fl l1))))"

definition quantize_activations ::
  "'f quantization \<Rightarrow> string \<Rightarrow> int \<Rightarrow> int \<Rightarrow> layer_parameter \<Rightarrow> fault + layer_parameter" where
  "quantize_activations q new_type bw_in bw_out l =
     (let l1 = set_type new_type l in
      case GetIntegerLengthIn q (name l1) of
        Inl e \<Rightarrow> Inl e
      | Inr il_i \<Rightarrow>
          (case int_sub bw_in il_i of
             Inl e \<Rightarrow> Inl e
           | Inr fl_i \<Rightarrow>
               (let l2 = set_bw_layer_in bw_in (set_fl_layer_in fl_i l1) in
                case GetIntegerLengthOut q (name l2) of
                  Inl e \<Rightarrow> Inl e
                | Inr il_o \<Rightarrow>
                    (case int_sub bw_out il_o of
                       Inl e \<Rightarrow> Inl e
                     | Inr fl_o \<Rightarrow> Inr (set_bw_layer_out bw_out (set_fl_layer_out fl_o l2))))))"

definition quantize_layer ::
  "'f quantization \<Rightarrow> string \<Rightarrow> string \<Rightarrow> int \<Rightarrow> int \<Rightarrow> int \<Rightarrow> layer_parameter
    \<Rightarrow> fault + layer_parameter" where
  "quantize_layer q net_part new_type bw bw_in bw_out l =
     (case (if contains net_part ''Parameters''
            then quantize_parameters q new_type bw l else Inr l) of
        Inl e \<Rightarrow> Inl e
      | Inr l1 \<Rightarrow>
          if contains net_part ''Activations''
          then quantize_activations q new_type bw_in bw_out l1 else Inr l1)"

text \<open>The body of the loop, for the layer at one index.\<close>

definition edit_layer ::
  "'f quantization \<Rightarrow> string \<Rightarrow> string \<Rightarrow> int \<Rightarrow> int \<Rightarrow> int \<Rightarrow> int \<Rightarrow> layer_parameter
    \<Rightarrow> fault + layer_parameter" where
  "edit_layer q layers_2_quantize net_part bw_conv bw_fc bw_in bw_out l =
     (case (if contains layers_2_quantize ''Convolution'' \<and> contains (type l) ''Convolution''
            then quantize_layer q net_part ''ConvolutionRistretto'' bw_conv bw_in bw_out l
            else Inr l) of
        Inl e \<Rightarrow> Inl e
      | Inr l1 \<Rightarrow>
          if contains layers_2_quantize ''InnerProduct'' \<and>
             (contains (type l1) ''InnerProduct'' \<or> contains (type l1) ''FcRistretto'')
          then quantize_layer q net_part ''FcRistretto'' bw_fc bw_in bw_out l1
          else Inr l1)"

text \<open>The loop over the layers; iteration \<open>i\<close> reads and writes layer \<open>i\<close> only.\<close>

fun edit_layers ::
  "'f quantization \<Rightarrow> string \<Rightarrow> string \<Rightarrow> int \<Rightarrow> int \<Rightarrow> int \<Rightarrow> int \<Rightarrow> layer_parameter list
    \<Rightarrow> fault + layer_parameter list" where
  "edit_layers q layers_2_quantize net_part bw_conv bw_fc bw_in bw_out [] = Inr []"
| "edit_layers q layers_2_quantize net_part bw_conv bw_fc bw_in bw_out (l # ls) =
     (case edit_layer q layers_2_quantize net_part bw_conv bw_fc bw_in bw_out l of
        Inl e \<Rightarrow> Inl e
      | Inr l' \<Rightarrow>
          (case edit_layers q layers_2_quantize net_part bw_conv bw_fc bw_in bw_out ls of
             Inl e \<Rightarrow> Inl e
           | Inr ls' \<Rightarrow> Inr (l' # ls')))"

definition EditNetDescriptionDynamicFixedPoint ::
  "'f quantization \<Rightarrow> net_parameter \<Rightarrow> string \<Rightarrow> string \<Rightarrow> int \<Rightarrow> int \<Rightarrow> int \<Rightarrow> int
    \<Rightarrow> fault + net_parameter" where
  "EditNetDescriptionDynamicFixedPoint q param layers_2_quantize net_part bw_conv bw_fc
       bw_in bw_out =
     (case edit_layers q layers_2_quantize net_part bw_conv bw_fc bw_in bw_out (layer param) of
        Inl e \<Rightarrow> Inl e
      | Inr ls \<Rightarrow> Inr (param\<lparr>layer := ls\<rparr>))"

text \<open>The two tests of the loop body, on the type that the layer has when the loop
  reaches it.\<close>

definition conv_selected :: "string \<Rightarrow> string \<Rightarrow> bool" where
  "conv_selected layers_2_quantize t =
     (contains layers_2_quantize ''Convolution'' \<and> contains t ''Convolution'')"

definition fc_selected :: "string \<Rightarrow> string \<Rightarrow> bool" where
  "fc_selected layers_2_quantize t =
     (contains layers_2_quantize ''InnerProduct'' \<and>
      (contains t ''InnerProduct'' \<or> contains t ''FcRistretto''))"

subsection \<open>Integer lengths\<close>

text \<open>
  The value of a floating-point expression: a real number, or one of the two special
  values that \<^verbatim>\<open>log2\<close> can return. \<^verbatim>\<open>log2(0)\<close> is minus infinity, \<^verbatim>\<open>log2\<close> of a
  negative number is not a number; adding a finite number and \<^verbatim>\<open>ceil\<close> keep both.
\<close>

datatype fpval = Finite real | MinusInfinity | NotANumber

definition log2 :: "real \<Rightarrow> fpval" where
  "log2 x = (if 0 < x then Finite (log 2 x) else if x = 0 then MinusInfinity else NotANumber)"

fun fp_plus :: "fpval \<Rightarrow> real \<Rightarrow> fpval" where
  "fp_plus (Finite r) c = Finite (r + c)"
| "fp_plus MinusInfinity c = MinusInfinity"
| "fp_plus NotANumber c = NotANumber"

fun fp_ceil :: "fpval \<Rightarrow> fpval" where
  "fp_ceil (Finite r) = Finite (of_int \<lceil>r\<rceil>)"
| "fp_ceil MinusInfinity = MinusInfinity"
| "fp_ceil NotANumber = NotANumber"

text \<open>The cast \<^verbatim>\<open>(int)\<close>: truncation towards zero, undefined when the truncated value
  is no \<^verbatim>\<open>int\<close>.\<close>

fun cast_int :: "fpval \<Rightarrow> fault + int" where
  "cast_int (Finite r) =
     (let t = (if 0 \<le> r then \<lfloor>r\<rfloor> else \<lceil>r\<rceil>)
      in if in_int_range t then Inr t else Inl FloatToIntUndefined)"
| "cast_int MinusInfinity = Inl FloatToIntUndefined"
| "cast_int NotANumber = Inl FloatToIntUndefined"

text \<open>The three expressions of the first loop of \<^verbatim>\<open>Quantize2DynamicFixedPoint\<close>, for one
  element of \<^verbatim>\<open>max_in_\<close>, \<^verbatim>\<open>max_out_\<close> and \<^verbatim>\<open>max_params_\<close>.\<close>

definition integer_length_in :: "real \<Rightarrow> fault + int" where
  "integer_length_in m = cast_int (fp_ceil (log2 (m + 1 / 10 ^ 8 + 1)))"

definition integer_length_out :: "real \<Rightarrow> fault + int" where
  "integer_length_out m = cast_int (fp_ceil (log2 (m + 1 / 10 ^ 8 + 1)))"

definition integer_length_params :: "real \<Rightarrow> fault + int" where
  "integer_length_params m = cast_int (fp_ceil (fp_plus (fp_plus (log2 m) (1 / 10 ^ 8)) 1))"

text \<open>The formula of the specification, \<open>ceil(log2(max_abs_value + \<epsilon> + 1))\<close> with
  \<open>\<epsilon> = 1e-8\<close>, for comparison.\<close>

definition spec_integer_length :: "real \<Rightarrow> int" where
  "spec_integer_length max_abs_value = \<lceil>log 2 (max_abs_value + 1 / 10 ^ 8 + 1)\<rceil>"

text \<open>One iteration of the loop: three reads, three \<^verbatim>\<open>push_back\<close>.\<close>

definition push_integer_lengths ::
  "nat \<Rightarrow> 'f quantization \<Rightarrow> (fault + unit) \<times> 'f quantization" where
  "push_integer_lengths i q =
     (case vec_at (max_in_' q) (int i) of
        Inl e \<Rightarrow> (Inl e, q)
      | Inr m_in \<Rightarrow>
     (case integer_length_in m_in of
        Inl e \<Rightarrow> (Inl e, q)
      | Inr a \<Rightarrow>
     (let q1 = q\<lparr>il_in_' := il_in_' q @ [a]\<rparr> in
      case vec_at (max_out_' q1) (int i) of
        Inl e \<Rightarrow> (Inl e, q1)
      | Inr m_out \<Rightarrow>
     (case integer_length_out m_out of
        Inl e \<Rightarrow> (Inl e, q1)
      | Inr b \<Rightarrow>
     (let q2 = q1\<lparr>il_out_' := il_out_' q1 @ [b]\<rparr> in
      case vec_at (max_params_' q2) (int i) of
        Inl e \<Rightarrow> (Inl e, q2)
      | Inr m_params \<Rightarrow>
     (case integer_length_params m_params of
        Inl e \<Rightarrow> (Inl e, q2)
      | Inr c \<Rightarrow> (Inr (), q2\<lparr>il_params_' := il_params_' q2 @ [c]\<rparr>)))))))"

fun integer_lengths_loop ::
  "nat list \<Rightarrow> 'f quantization \<Rightarrow> (fault + unit) \<times> 'f quantization" where
  "integer_lengths_loop [] q = (Inr (), q)"
| "integer_lengths_loop (i # is) q =
     (case push_integer_lengths i q of
        (Inl e, q1) \<Rightarrow> (Inl e, q1)
      | (Inr u, q1) \<Rightarrow> integer_lengths_loop is q1)"

subsection \<open>The engine\<close>

text \<open>
  What the file calls and does not define. A network \<open>'net\<close> is opaque; \<open>Forward\<close>
  returns the output blobs of one batch, each a vector of scores, and the network after
  the pass. \<open>RangeInLayers\<close> updates the four statistics vectors that it is given.
  \<open>ReadNetParamsFromTextFileOrDie\<close> takes the file name and the message that it
  parses into. \<open>probe_good\<close> tells whether a file can be opened for writing,
  \<open>cudaGetDeviceCount\<close> is \<open>None\<close> in a CPU-only build, \<open>lexical_cast_int\<close> is
  \<open>None\<close> where \<^verbatim>\<open>boost::lexical_cast<int>\<close> throws. \<open>score_plus\<close> and
  \<open>score_divide\<close> are \<^verbatim>\<open>+\<close> on \<^verbatim>\<open>float\<close> and the division of a \<^verbatim>\<open>float\<close> by an
  \<^verbatim>\<open>int\<close>. Creating a network and loading weights are taken to succeed.
\<close>

type_synonym ranges = "string list \<times> real list \<times> real list \<times> real list"

record ('net, 'f) engine =
  new_Net_from_file :: "string \<Rightarrow> 'net"
  new_Net_from_param :: "net_parameter \<Rightarrow> 'net"
  CopyTrainedLayersFrom :: "'net \<Rightarrow> string \<Rightarrow> 'net"
  Forward :: "'net \<Rightarrow> 'f list list \<times> 'net"
  RangeInLayers :: "'net \<Rightarrow> ranges \<Rightarrow> ranges"
  ReadNetParamsFromTextFileOrDie :: "string \<Rightarrow> net_parameter \<Rightarrow> net_parameter"
  probe_good :: "string \<Rightarrow> bool"
  cudaGetDeviceCount :: "int option"
  lexical_cast_int :: "string \<Rightarrow> int option"
  score_plus :: "'f \<Rightarrow> 'f \<Rightarrow> 'f"
  score_divide :: "'f \<Rightarrow> int \<Rightarrow> 'f"

text \<open>
  Modelled from the spec: the default arguments of \<^verbatim>\<open>RunForwardBatches\<close> are declared in
  \<^verbatim>\<open>ristretto/quantization.hpp\<close>, which is not part of the file. A scoring pass
  collects no statistics, and the designated output is the first element of the first
  output.
\<close>

definition default_do_stats :: bool where
  "default_do_stats = False"

definition default_score_number :: int where
  "default_score_number = 0"

subsection \<open>Write permissions and device\<close>

definition CheckWritePermissions ::
  "('net, 'f) engine \<Rightarrow> string \<Rightarrow> 'f quantization \<Rightarrow> (fault + unit) \<times> 'f quantization" where
  "CheckWritePermissions eng path q =
     (if probe_good eng path then (Inr (), q\<lparr>trace := trace q @ [WriteProbed path]\<rparr>)
      else (Inl MissingWritePermissions, q))"

text \<open>\<^verbatim>\<open>boost::split\<close> at every occurrence of the separator.\<close>

fun split_on :: "char \<Rightarrow> string \<Rightarrow> string list" where
  "split_on c [] = [[]]"
| "split_on c (x # xs) =
     (if x = c then [] # split_on c xs
      else (case split_on c xs of [] \<Rightarrow> [[x]] | t # ts \<Rightarrow> (x # t) # ts))"

fun lexical_casts :: "(string \<Rightarrow> int option) \<Rightarrow> string list \<Rightarrow> fault + int list" where
  "lexical_casts cast [] = Inr []"
| "lexical_casts cast (s # ss) =
     (case cast s of
        None \<Rightarrow> Inl (BadLexicalCast s)
      | Some i \<Rightarrow>
          (case lexical_casts cast ss of Inl e \<Rightarrow> Inl e | Inr gpus \<Rightarrow> Inr (i # gpus)))"

definition SetGpu ::
  "('net, 'f) engine \<Rightarrow> 'f quantization \<Rightarrow> (fault + unit) \<times> 'f quantization" where
  "SetGpu eng q =
     (case (if gpus_' q = ''all''
            then (case cudaGetDeviceCount eng of
                    None \<Rightarrow> Inl NoGpu
                  | Some count \<Rightarrow> Inr (map int [0..<nat count]))
            else if gpus_' q \<noteq> []
            then lexical_casts (lexical_cast_int eng) (split_on CHR '','' (gpus_' q))
            else Inr []) of
        Inl e \<Rightarrow> (Inl e, q)
      | Inr gpus \<Rightarrow>
          (Inr (), q\<lparr>trace := trace q @
                     [DeviceSet (case gpus of [] \<Rightarrow> CPU | g # gs \<Rightarrow> GPU g)]\<rparr>))"

subsection \<open>Running batches\<close>

text \<open>
  The loop over \<open>k\<close>: the elements of one output blob. \<open>first\<close> is \<^verbatim>\<open>i == 0\<close>; the pair
  is \<^verbatim>\<open>test_score\<close> and \<^verbatim>\<open>idx\<close>.
\<close>

fun accumulate_blob ::
  "('f \<Rightarrow> 'f \<Rightarrow> 'f) \<Rightarrow> bool \<Rightarrow> 'f list \<Rightarrow> 'f list \<times> nat \<Rightarrow> fault + 'f list \<times> nat" where
  "accumulate_blob add first [] (test_score, idx) = Inr (test_score, idx)"
| "accumulate_blob add first (score # result_vec) (test_score, idx) =
     (if first then accumulate_blob add first result_vec (test_score @ [score], Suc idx)
      else if idx < length test_score
      then accumulate_blob add first result_vec
             (test_score[idx := add (test_score ! idx) score], Suc idx)
      else Inl (OutOfRange (int idx)))"

text \<open>The loop over \<open>j\<close>: the output blobs of one batch.\<close>

fun accumulate_result ::
  "('f \<Rightarrow> 'f \<Rightarrow> 'f) \<Rightarrow> bool \<Rightarrow> 'f list list \<Rightarrow> 'f list \<times> nat \<Rightarrow> fault + 'f list \<times> nat" where
  "accumulate_result add first [] s = Inr s"
| "accumulate_result add first (result_vec # result) s =
     (case accumulate_blob add first result_vec s of
        Inl e \<Rightarrow> Inl e
      | Inr s' \<Rightarrow> accumulate_result add first result s')"

definition range_in_layers :: "('net, 'f) engine \<Rightarrow> 'net \<Rightarrow> 'f quantization \<Rightarrow> 'f quantization" where
  "range_in_layers eng net q =
     (case RangeInLayers eng net (layer_names_' q, max_in_' q, max_out_' q, max_params_' q) of
        (names, m_in, m_out, m_params) \<Rightarrow>
          q\<lparr>layer_names_' := names, max_in_' := m_in, max_out_' := m_out,
            max_params_' := m_params, trace := trace q @ [RangeQueried]\<rparr>)"

text \<open>The loop over \<open>i\<close>, with the number of iterations that are left and \<open>i\<close>.\<close>

fun batches_loop ::
  "('net, 'f) engine \<Rightarrow> bool \<Rightarrow> nat \<Rightarrow> nat \<Rightarrow> 'net \<Rightarrow> 'f quantization \<Rightarrow> 'f list
    \<Rightarrow> (fault + 'f list) \<times> 'net \<times> 'f quantization" where
  "batches_loop eng do_stats 0 i net q test_score = (Inr test_score, net, q)"
| "batches_loop eng do_stats (Suc n) i net q test_score =
     (case Forward eng net of
        (result, net1) \<Rightarrow>
          (let q1 = q\<lparr>trace := trace q @ [ForwardPass]\<rparr>;
               q2 = (if do_stats then range_in_layers eng net1 q1 else q1)
           in case accumulate_result (score_plus eng) (i = 0) result (test_score, 0) of
                Inl e \<Rightarrow> (Inl e, net1, q2)
              | Inr (test_score', idx) \<Rightarrow>
                  batches_loop eng do_stats n (Suc i) net1 q2 test_score'))"

definition RunForwardBatches ::
  "('net, 'f) engine \<Rightarrow> int \<Rightarrow> 'net \<Rightarrow> bool \<Rightarrow> int \<Rightarrow> 'f quantization
    \<Rightarrow> (fault + 'f) \<times> 'net \<times> 'f quantization" where
  "RunForwardBatches eng iterations caffe_net do_stats score_number q =
     (case batches_loop eng do_stats (nat iterations) 0 caffe_net q [] of
        (Inl e, net', q') \<Rightarrow> (Inl e, net', q')
      | (Inr test_score, net', q') \<Rightarrow>
          (case vec_at test_score score_number of
             Inl e \<Rightarrow> (Inl e, net', q')
           | Inr s \<Rightarrow> (Inr (score_divide eng s iterations), net', q')))"

subsection \<open>The search\<close>

definition empty_net_parameter :: net_parameter where
  "empty_net_parameter = \<lparr>layer = [], state = None, net_rest = []\<rparr>"

text \<open>\<^verbatim>\<open>param.mutable_state()->set_phase(caffe::TEST)\<close> and \<^verbatim>\<open>param.release_state()\<close>.\<close>

definition set_phase_TEST :: "net_parameter \<Rightarrow> net_parameter" where
  "set_phase_TEST param =
     param\<lparr>state := Some ((case state param of
                              None \<Rightarrow> \<lparr>phase = None, state_rest = []\<rparr>
                            | Some st \<Rightarrow> st)\<lparr>phase := Some TEST\<rparr>)\<rparr>"

definition release_state :: "net_parameter \<Rightarrow> net_parameter" where
  "release_state param = param\<lparr>state := None\<rparr>"

text \<open>
  \<^verbatim>\<open>Quantize2DynamicFixedPoint\<close> runs the same statements four times, with other
  arguments: the description is read from \<^verbatim>\<open>model_\<close> into \<^verbatim>\<open>param\<close>, its phase is set,
  it is edited, a network is created from it, the weights are copied, the batches are
  run and the network is deleted. \<open>candidate\<close> is that block; its second argument is
  the value of \<^verbatim>\<open>param\<close> before the block, its result the value after it and the
  accuracy. The vectors \<^verbatim>\<open>test_bw_...\<close> hold one bit-width each, the one just
  tested, so the members \<^verbatim>\<open>bw_conv_params_\<close>, \<^verbatim>\<open>bw_fc_params_\<close>, \<^verbatim>\<open>bw_out_\<close> and
  \<^verbatim>\<open>bw_in_\<close> receive \<^verbatim>\<open>bitwidth_weights_\<close> and \<^verbatim>\<open>bitwidth_activations_\<close>, and the
  last block is given these values.
\<close>

definition candidate ::
  "('net, 'f) engine \<Rightarrow> net_parameter \<Rightarrow> string \<Rightarrow> string \<Rightarrow> int \<Rightarrow> int \<Rightarrow> int \<Rightarrow> int
    \<Rightarrow> 'f quantization \<Rightarrow> (fault + net_parameter \<times> 'f) \<times> 'f quantization" where
  "candidate eng param layers_2_quantize net_part bw_conv bw_fc bw_in bw_out q =
     (let param1 = set_phase_TEST (ReadNetParamsFromTextFileOrDie eng (model_' q) param) in
      case EditNetDescriptionDynamicFixedPoint q param1 layers_2_quantize net_part
             bw_conv bw_fc bw_in bw_out of
        Inl e \<Rightarrow> (Inl e, q)
      | Inr param2 \<Rightarrow>
          (let net_test = CopyTrainedLayersFrom eng (new_Net_from_param eng param2) (weights_' q);
               q1 = q\<lparr>trace := trace q @
                      [NetCreated (FromParam param2), WeightsCopied (weights_' q)]\<rparr>
           in case RunForwardBatches eng (iterations_' q1) net_test default_do_stats
                     default_score_number q1 of
                (Inl e, net', q2) \<Rightarrow> (Inl e, q2)
              | (Inr accuracy, net', q2) \<Rightarrow>
                  (Inr (param2, accuracy), q2\<lparr>trace := trace q2 @ [NetDeleted]\<rparr>)))"

definition Quantize2DynamicFixedPoint ::
  "('net, 'f) engine \<Rightarrow> 'f quantization \<Rightarrow> (fault + unit) \<times> 'f quantization" where
  "Quantize2DynamicFixedPoint eng q =
     (case integer_lengths_loop [0..<length (layer_names_' q)] q of
        (Inl e, q1) \<Rightarrow> (Inl e, q1)
      | (Inr u, q1) \<Rightarrow>
     (case candidate eng empty_net_parameter ''Convolution'' ''Parameters''
             (bitwidth_weights_' q1) (- 1) (- 1) (- 1) q1 of
        (Inl e, q2) \<Rightarrow> (Inl e, q2)
      | (Inr (param2, accuracy2), q2) \<Rightarrow>
     (case candidate eng param2 ''InnerProduct'' ''Parameters''
             (- 1) (bitwidth_weights_' q2) (- 1) (- 1) q2 of
        (Inl e, q3) \<Rightarrow> (Inl e, q3)
      | (Inr (param3, accuracy3), q3) \<Rightarrow>
     (case candidate eng param3 ''Convolution_and_InnerProduct'' ''Activations''
             (- 1) (- 1) (bitwidth_activations_' q3) (bitwidth_activations_' q3) q3 of
        (Inl e, q4) \<Rightarrow> (Inl e, q4)
      | (Inr (param4, accuracy4), q4) \<Rightarrow>
     (let q5 = q4\<lparr>bw_conv_params_' := Some (bitwidth_weights_' q4),
                  bw_fc_params_' := Some (bitwidth_weights_' q4),
                  bw_out_' := Some (bitwidth_activations_' q4),
                  bw_in_' := Some (bitwidth_activations_' q4)\<rparr> in
      case candidate eng param4 ''Convolution_and_InnerProduct''
             ''Parameters_and_Activations'' (bitwidth_weights_' q5) (bitwidth_weights_' q5)
             (bitwidth_activations_' q5) (bitwidth_activations_' q5) q5 of
        (Inl e, q6) \<Rightarrow> (Inl e, q6)
      | (Inr (param5, accuracy5), q6) \<Rightarrow>
          (Inr (), q6\<lparr>trace := trace q6 @
                       [DescriptionWritten (release_state param5) (model_quantized_' q6)]\<rparr>))))))"

definition QuantizeNet ::
  "('net, 'f) engine \<Rightarrow> 'f quantization \<Rightarrow> (fault + unit) \<times> 'f quantization" where
  "QuantizeNet eng q =
     (case CheckWritePermissions eng (model_quantized_' q) q of
        (Inl e, q1) \<Rightarrow> (Inl e, q1)
      | (Inr u, q1) \<Rightarrow>
     (case SetGpu eng q1 of
        (Inl e, q2) \<Rightarrow> (Inl e, q2)
      | (Inr u, q2) \<Rightarrow>
     (let net_val = CopyTrainedLayersFrom eng (new_Net_from_file eng (model_' q2)) (weights_' q2);
          q3 = q2\<lparr>trace := trace q2 @
                 [NetCreated (FromFile (model_' q2)), WeightsCopied (weights_' q2)]\<rparr>
      in case RunForwardBatches eng (iterations_' q3) net_val True default_score_number q3 of
           (Inl e, net', q4) \<Rightarrow> (Inl e, q4)
         | (Inr accuracy, net', q4) \<Rightarrow>
             (let q5 = q4\<lparr>test_score_baseline_' := Some accuracy,
                          trace := trace q4 @ [NetDeleted]\<rparr>
              in if trimming_mode_' q5 = ''dynamic_fixed_point''
                 then Quantize2DynamicFixedPoint eng q5
                 else (Inl (UnknownTrimmingMode (trimming_mode_' q5)), q5)))))"

subsection \<open>What a run did\<close>

text \<open>The output blobs of \<open>n\<close> successive forward passes of a network, and the
  descriptions from which a trace created networks, in order.\<close>

fun forward_results :: "('net, 'f) engine \<Rightarrow> nat \<Rightarrow> 'net \<Rightarrow> 'f list list list" where
  "forward_results eng 0 net = []"
| "forward_results eng (Suc n) net =
     (case Forward eng net of (result, net1) \<Rightarrow> result # forward_results eng n net1)"

fun nets_built :: "event list \<Rightarrow> net_parameter list" where
  "nets_built [] = []"
| "nets_built (NetCreated (FromParam param) # es) = param # nets_built es"
| "nets_built (e # es) = nets_built es"

text \<open>
  The four candidates of \<^verbatim>\<open>Quantize2DynamicFixedPoint\<close> as the specification describes
  them: each is the edit of the same description, the base description as read from
  the model file, with the phase set. The object supplies the bit-widths and the
  integer lengths.
\<close>

definition fresh_candidates ::
  "'f quantization \<Rightarrow> net_parameter \<Rightarrow> (fault + net_parameter) list" where
  "fresh_candidates q base =
     [EditNetDescriptionDynamicFixedPoint q base ''Convolution'' ''Parameters''
        (bitwidth_weights_' q) (- 1) (- 1) (- 1),
      EditNetDescriptionDynamicFixedPoint q base ''InnerProduct'' ''Parameters''
        (- 1) (bitwidth_weights_' q) (- 1) (- 1),
      EditNetDescriptionDynamicFixedPoint q base ''Convolution_and_InnerProduct''
        ''Activations'' (- 1) (- 1) (bitwidth_activations_' q) (bitwidth_activations_' q),
      EditNetDescriptionDynamicFixedPoint q base ''Convolution_and_InnerProduct''
        ''Parameters_and_Activations'' (bitwidth_weights_' q) (bitwidth_weights_' q)
        (bitwidth_activations_' q) (bitwidth_activations_' q)]"

text \<open>Two objects with the same model file, bit-widths, recorded names and integer
  lengths.\<close>

definition same_calibration :: "'f quantization \<Rightarrow> 'f quantization \<Rightarrow> bool" where
  "same_calibration s t =
     (model_' s = model_' t \<and> bitwidth_weights_' s = bitwidth_weights_' t \<and>
      bitwidth_activations_' s = bitwidth_activations_' t \<and>
      layer_names_' s = layer_names_' t \<and> il_in_' s = il_in_' t \<and>
      il_out_' s = il_out_' t \<and> il_params_' s = il_params_' t)"

subsection \<open>A small network\<close>

text \<open>
  A description with a convolution layer, a pooling layer and an inner product layer,
  the statistics of a baseline run over it, and an engine whose network is the number
  of batches it has run. They serve as concrete inputs below.
\<close>

definition example_net :: net_parameter where
  "example_net =
     \<lparr>layer =
        [\<lparr>name = ''conv1'', type = ''Convolution'', quantization_param = None,
          layer_rest = ''num_output: 20''\<rparr>,
         \<lparr>name = ''pool1'', type = ''Pooling'', quantization_param = None,
          layer_rest = ''pool: MAX''\<rparr>,
         \<lparr>name = ''ip1'', type = ''InnerProduct'', quantization_param = None,
          layer_rest = ''num_output: 10''\<rparr>],
      state = None, net_rest = ''name: LeNet''\<rparr>"

definition example_engine :: "(nat, real) engine" where
  "example_engine =
     \<lparr>new_Net_from_file = (\<lambda>file. 0),
      new_Net_from_param = (\<lambda>param. 0),
      CopyTrainedLayersFrom = (\<lambda>net file. net),
      Forward = (\<lambda>net. ([[real net / 4], [1 / 2, 1 / 8]], Suc net)),
      RangeInLayers =
        (\<lambda>net r. ([''conv1'', ''ip1''], [6 / 5, 2 / 5], [2 / 5, 1 / 20], [4, 1 / 2])),
      ReadNetParamsFromTextFileOrDie = (\<lambda>file param. example_net),
      probe_good = (\<lambda>path. True),
      cudaGetDeviceCount = None,
      lexical_cast_int = (\<lambda>s. None),
      score_plus = (+),
      score_divide = (\<lambda>x n. x / real_of_int n)\<rparr>"

definition example_q :: "real quantization" where
  "example_q =
     Quantization ''lenet.prototxt'' ''lenet.caffemodel'' ''quantized.prototxt'' 2
       ''dynamic_fixed_point'' 8 8 []"

text \<open>The object after the baseline run, and after the integer lengths are computed.\<close>

definition example_measured :: "real quantization" where
  "example_measured =
     example_q\<lparr>layer_names_' := [''conv1'', ''ip1''], max_in_' := [6 / 5, 2 / 5],
       max_out_' := [2 / 5, 1 / 20], max_params_' := [4, 1 / 2]\<rparr>"

definition example_calibrated :: "real quantization" where
  "example_calibrated =
     example_measured\<lparr>il_in_' := [2, 1], il_out_' := [1, 1], il_params_' := [4, 1]\<rparr>"

definition quantized :: "int \<Rightarrow> int \<Rightarrow> int \<Rightarrow> int \<Rightarrow> int \<Rightarrow> int \<Rightarrow> quantization_parameter" where
  "quantized fl_p bw_p fl_i bw_i fl_o bw_o =
     \<lparr>fl_params = Some fl_p, bw_params = Some bw_p, fl_layer_in = Some fl_i,
      bw_layer_in = Some bw_i, fl_layer_out = Some fl_o, bw_layer_out = Some bw_o,
      qp_rest = []\<rparr>"

text \<open>The description with the parameters and the activations of both kinds of layer at
  eight bits.\<close>

definition example_quantized :: net_parameter where
  "example_quantized =
     \<lparr>layer =
        [\<lparr>name = ''conv1'', type = ''ConvolutionRistretto'',
          quantization_param = Some (quantized 4 8 6 8 7 8), layer_rest = ''num_output: 20''\<rparr>,
         \<lparr>name = ''pool1'', type = ''Pooling'', quantization_param = None,
          layer_rest = ''pool: MAX''\<rparr>,
         \<lparr>name = ''ip1'', type = ''FcRistretto'',
          quantization_param = Some (quantized 7 8 7 8 7 8), layer_rest = ''num_output: 10''\<rparr>],
      state = None, net_rest = ''name: LeNet''\<rparr>"

section \<open>Properties\<close>

subsection \<open>Editing one layer\<close>

lemmas setters = set_type_def set_fl_params_def set_bw_params_def set_fl_layer_in_def
  set_bw_layer_in_def set_fl_layer_out_def set_bw_layer_out_def mutable_quantization_param_def

lemma quantize_parameters_Inr:
  "quantize_parameters q ty bw l = Inr l' \<longleftrightarrow>
     (\<exists>il. GetIntegerLengthParams q (name l) = Inr il \<and> in_int_range (bw - il) \<and>
        l' = set_bw_params bw (set_fl_params (bw - il) (set_type ty l)))"
  by (auto simp: quantize_parameters_def Let_def int_sub_def set_type_def split: sum.splits)

lemma quantize_activations_Inr:
  "quantize_activations q ty bi bo l = Inr l' \<longleftrightarrow>
     (\<exists>ii io. GetIntegerLengthIn q (name l) = Inr ii \<and> in_int_range (bi - ii) \<and>
        GetIntegerLengthOut q (name l) = Inr io \<and> in_int_range (bo - io) \<and>
        l' = set_bw_layer_out bo (set_fl_layer_out (bo - io)
               (set_bw_layer_in bi (set_fl_layer_in (bi - ii) (set_type ty l)))))"
  by (auto simp: quantize_activations_def Let_def int_sub_def setters split: sum.splits)

lemma quantize_parameters_idem:
  "quantize_parameters q ty bw l = Inr l' \<Longrightarrow> quantize_parameters q ty bw l' = Inr l'"
  by (auto simp: quantize_parameters_Inr setters)

lemma quantize_activations_idem:
  "quantize_activations q ty bi bo l = Inr l' \<Longrightarrow> quantize_activations q ty bi bo l' = Inr l'"
  by (auto simp: quantize_activations_Inr setters)

lemma quantize_pa_idem:
  "quantize_parameters q ty bw l = Inr l1 \<Longrightarrow> quantize_activations q ty bi bo l1 = Inr l2 \<Longrightarrow>
   quantize_parameters q ty bw l2 = Inr l2"
  by (auto simp: quantize_parameters_Inr quantize_activations_Inr setters)


lemma quantize_layer_idem:
  assumes "quantize_layer q np ty bw bi bo l = Inr l'"
  shows "quantize_layer q np ty bw bi bo l' = Inr l'"
proof (cases "contains np ''Parameters''")
  case True
  then obtain l1 where 1: "quantize_parameters q ty bw l = Inr l1"
    and 2: "(if contains np ''Activations'' then quantize_activations q ty bi bo l1 else Inr l1) = Inr l'"
    using assms by (auto simp: quantize_layer_def split: sum.splits)
  show ?thesis
  proof (cases "contains np ''Activations''")
    case A: True
    with 2 have 3: "quantize_activations q ty bi bo l1 = Inr l'" by simp
    from quantize_pa_idem[OF 1 3] quantize_activations_idem[OF 3] True A
    show ?thesis by (simp add: quantize_layer_def)
  next
    case False
    with 2 have "l' = l1" by simp
    with quantize_parameters_idem[OF 1] True False show ?thesis by (simp add: quantize_layer_def)
  qed
next
  case False
  then show ?thesis using assms quantize_activations_idem
    by (auto simp: quantize_layer_def split: if_splits)
qed

lemma quantize_layer_type:
  assumes "quantize_layer q np ty bw bi bo l = Inr l'"
  shows "type l' = (if contains np ''Parameters'' \<or> contains np ''Activations'' then ty else type l)"
  using assms
  by (auto simp: quantize_layer_def quantize_parameters_Inr quantize_activations_Inr setters
      split: sum.splits if_splits)

lemma quantize_layer_frame:
  assumes "quantize_layer q np ty bw bi bo l = Inr l'"
  shows "name l' = name l \<and> layer_rest l' = layer_rest l \<and>
    qp_rest (mutable_quantization_param l') = qp_rest (mutable_quantization_param l)"
  using assms
  by (auto simp: quantize_layer_def quantize_parameters_Inr quantize_activations_Inr setters
      split: sum.splits if_splits)

lemma quantize_layer_untouched:
  "\<not> contains np ''Parameters'' \<Longrightarrow> \<not> contains np ''Activations'' \<Longrightarrow>
   quantize_layer q np ty bw bi bo l = Inr l"
  by (simp add: quantize_layer_def)

lemma ristretto_types:
  "contains ''ConvolutionRistretto'' ''Convolution''"
  "\<not> contains ''ConvolutionRistretto'' ''InnerProduct''"
  "\<not> contains ''ConvolutionRistretto'' ''FcRistretto''"
  "contains ''FcRistretto'' ''FcRistretto''"
  "\<not> contains ''FcRistretto'' ''Convolution''"
  by simp_all


lemma edit_layer_unselected:
  "\<not> conv_selected l2q (type l) \<Longrightarrow> \<not> fc_selected l2q (type l) \<Longrightarrow>
   edit_layer q l2q np bc bf bi bo l = Inr l"
  by (auto simp: edit_layer_def conv_selected_def fc_selected_def)

lemma edit_layer_no_part:
  "\<not> contains np ''Parameters'' \<Longrightarrow> \<not> contains np ''Activations'' \<Longrightarrow>
   edit_layer q l2q np bc bf bi bo l = Inr l"
  by (simp add: edit_layer_def quantize_layer_untouched)

lemma edit_layer_conv:
  assumes "conv_selected l2q (type l)" "contains np ''Parameters'' \<or> contains np ''Activations''"
  shows "edit_layer q l2q np bc bf bi bo l =
           quantize_layer q np ''ConvolutionRistretto'' bc bi bo l"
proof (cases "quantize_layer q np ''ConvolutionRistretto'' bc bi bo l")
  case (Inl e)
  with assms show ?thesis by (simp add: edit_layer_def conv_selected_def)
next
  case (Inr l1)
  from quantize_layer_type[OF Inr] assms(2) have "type l1 = ''ConvolutionRistretto''" by simp
  with Inr assms(1) show ?thesis
    by (simp add: edit_layer_def conv_selected_def)
qed

lemma edit_layer_fc:
  assumes "\<not> conv_selected l2q (type l)" "fc_selected l2q (type l)"
  shows "edit_layer q l2q np bc bf bi bo l = quantize_layer q np ''FcRistretto'' bf bi bo l"
  using assms by (auto simp: edit_layer_def conv_selected_def fc_selected_def)

lemma edit_layer_cases:
  obtains (none) "\<not> contains np ''Parameters''" "\<not> contains np ''Activations''"
      "edit_layer q l2q np bc bf bi bo l = Inr l"
  | (unselected) "\<not> conv_selected l2q (type l)" "\<not> fc_selected l2q (type l)"
      "edit_layer q l2q np bc bf bi bo l = Inr l"
  | (conv) "contains np ''Parameters'' \<or> contains np ''Activations''" "conv_selected l2q (type l)"
      "edit_layer q l2q np bc bf bi bo l = quantize_layer q np ''ConvolutionRistretto'' bc bi bo l"
  | (fc) "contains np ''Parameters'' \<or> contains np ''Activations''"
      "\<not> conv_selected l2q (type l)" "fc_selected l2q (type l)"
      "edit_layer q l2q np bc bf bi bo l = quantize_layer q np ''FcRistretto'' bf bi bo l"
  using edit_layer_unselected edit_layer_no_part edit_layer_conv edit_layer_fc by metis

lemma edit_layer_frame:
  assumes "edit_layer q l2q np bc bf bi bo l = Inr l'"
  shows "name l' = name l \<and> layer_rest l' = layer_rest l \<and>
    qp_rest (mutable_quantization_param l') = qp_rest (mutable_quantization_param l)"
  using assms by (cases rule: edit_layer_cases[where q=q and l=l and np=np and ?l2q.0=l2q and bc=bc and bf=bf and bi=bi and bo=bo])
    (auto dest: quantize_layer_frame)

lemma edit_layer_idem:
  assumes "edit_layer q l2q np bc bf bi bo l = Inr l'"
  shows "edit_layer q l2q np bc bf bi bo l' = Inr l'"
proof (cases rule: edit_layer_cases[where q=q and l=l and np=np and ?l2q.0=l2q and bc=bc and bf=bf and bi=bi and bo=bo])
  case none
  with assms show ?thesis by simp
next
  case unselected
  with assms show ?thesis by simp
next
  case conv
  with assms have ql: "quantize_layer q np ''ConvolutionRistretto'' bc bi bo l = Inr l'" by simp
  from quantize_layer_type[OF ql] conv(1) have "type l' = ''ConvolutionRistretto''" by simp
  with conv(2) have "conv_selected l2q (type l')" by (simp add: conv_selected_def)
  then show ?thesis using quantize_layer_idem[OF ql] conv(1) by (simp add: edit_layer_conv)
next
  case fc
  with assms have ql: "quantize_layer q np ''FcRistretto'' bf bi bo l = Inr l'" by simp
  from quantize_layer_type[OF ql] fc(1) have t: "type l' = ''FcRistretto''" by simp
  with fc(3) have "\<not> conv_selected l2q (type l')" "fc_selected l2q (type l')"
    by (simp_all add: conv_selected_def fc_selected_def)
  then show ?thesis using quantize_layer_idem[OF ql] by (simp add: edit_layer_fc)
qed

lemma edit_layers_Inr:
  "edit_layers q l2q np bc bf bi bo ls = Inr ls' \<longleftrightarrow>
     length ls' = length ls \<and>
     (\<forall>i < length ls. edit_layer q l2q np bc bf bi bo (ls ! i) = Inr (ls' ! i))"
proof (induction ls arbitrary: ls')
  case Nil
  then show ?case by auto
next
  case (Cons l ls)
  show ?case
  proof (cases ls')
    case Nil
    then show ?thesis by (auto split: sum.splits)
  next
    case (Cons a as)
    then show ?thesis
      using Cons.IH[of as] by (auto simp: less_Suc_eq_0_disj split: sum.splits)
  qed
qed


lemma find_pos_absent: "x \<notin> set xs \<Longrightarrow> find_pos xs x = length xs"
  by (induction xs) auto

lemma find_pos_first:
  "i < length xs \<Longrightarrow> xs ! i = x \<Longrightarrow> x \<notin> set (take i xs) \<Longrightarrow> find_pos xs x = i"
proof (induction xs arbitrary: i)
  case Nil
  then show ?case by simp
next
  case (Cons y ys)
  then show ?case by (cases i) auto
qed

lemma find_pos_present: "x \<in> set xs \<Longrightarrow> find_pos xs x < length xs \<and> xs ! find_pos xs x = x"
  by (induction xs) auto

lemma edit_layer_written_params:
  assumes "edit_layer q l2q np bc bf bi bo l = Inr l'" "contains np ''Parameters''"
    "conv_selected l2q (type l) \<or> fc_selected l2q (type l)"
  shows "\<exists>qp il. quantization_param l' = Some qp \<and> GetIntegerLengthParams q (name l) = Inr il \<and>
     fl_params qp = Some ((if conv_selected l2q (type l) then bc else bf) - il) \<and>
     bw_params qp = Some (if conv_selected l2q (type l) then bc else bf)"
proof (cases "conv_selected l2q (type l)")
  case True
  with assms have "quantize_layer q np ''ConvolutionRistretto'' bc bi bo l = Inr l'"
    by (simp add: edit_layer_conv)
  with True assms(2) show ?thesis
    by (auto simp: quantize_layer_def quantize_parameters_Inr quantize_activations_Inr setters
        split: sum.splits if_splits)
next
  case False
  with assms have "quantize_layer q np ''FcRistretto'' bf bi bo l = Inr l'"
    by (simp add: edit_layer_fc)
  with False assms(2) show ?thesis
    by (auto simp: quantize_layer_def quantize_parameters_Inr quantize_activations_Inr setters
        split: sum.splits if_splits)
qed

lemma edit_layer_written_activations:
  assumes "edit_layer q l2q np bc bf bi bo l = Inr l'" "contains np ''Activations''"
    "conv_selected l2q (type l) \<or> fc_selected l2q (type l)"
  shows "\<exists>qp ii io. quantization_param l' = Some qp \<and>
     GetIntegerLengthIn q (name l) = Inr ii \<and> GetIntegerLengthOut q (name l) = Inr io \<and>
     fl_layer_in qp = Some (bi - ii) \<and> bw_layer_in qp = Some bi \<and>
     fl_layer_out qp = Some (bo - io) \<and> bw_layer_out qp = Some bo"
proof -
  obtain ty bw where "quantize_layer q np ty bw bi bo l = Inr l'"
    using assms edit_layer_conv[of l2q l np q bc bf bi bo] edit_layer_fc[of l2q l q np bc bf bi bo]
    by (cases "conv_selected l2q (type l)") auto
  with assms(2) show ?thesis
    by (auto simp: quantize_layer_def quantize_parameters_Inr quantize_activations_Inr setters
        split: sum.splits if_splits)
qed


lemma edit_layer_cong:
  fixes q :: "'f quantization" and q' :: "'g quantization"
  assumes "layer_names_' q = layer_names_' q'" "il_in_' q = il_in_' q'"
    "il_out_' q = il_out_' q'" "il_params_' q = il_params_' q'"
  shows "edit_layer q l2q np bc bf bi bo l = edit_layer q' l2q np bc bf bi bo l"
proof -
  have get: "GetIntegerLengthParams q = GetIntegerLengthParams q'"
    "GetIntegerLengthIn q = GetIntegerLengthIn q'"
    "GetIntegerLengthOut q = GetIntegerLengthOut q'"
    using assms
    by (simp_all add: fun_eq_iff GetIntegerLengthParams_def GetIntegerLengthIn_def
        GetIntegerLengthOut_def)
  have qp: "quantize_parameters q = quantize_parameters q'"
    unfolding fun_eq_iff quantize_parameters_def get by simp
  have qa: "quantize_activations q = quantize_activations q'"
    unfolding fun_eq_iff quantize_activations_def get by simp
  have ql: "quantize_layer q = quantize_layer q'"
    unfolding fun_eq_iff quantize_layer_def qp qa by simp
  show ?thesis unfolding edit_layer_def ql by simp
qed

lemma edit_layers_cong:
  fixes q :: "'f quantization" and q' :: "'g quantization"
  assumes "layer_names_' q = layer_names_' q'" "il_in_' q = il_in_' q'"
    "il_out_' q = il_out_' q'" "il_params_' q = il_params_' q'"
  shows "edit_layers q l2q np bc bf bi bo ls = edit_layers q' l2q np bc bf bi bo ls"
proof (induction ls)
  case Nil
  show ?case by simp
next
  case (Cons l ls)
  show ?case unfolding edit_layers.simps Cons.IH edit_layer_cong[OF assms] by simp
qed

lemma Edit_Inr:
  "EditNetDescriptionDynamicFixedPoint q param l2q np bc bf bi bo = Inr param' \<longleftrightarrow>
     (\<exists>ls. edit_layers q l2q np bc bf bi bo (layer param) = Inr ls \<and> param' = param\<lparr>layer := ls\<rparr>)"
  by (auto simp: EditNetDescriptionDynamicFixedPoint_def split: sum.splits)

lemma Edit_cong:
  fixes q :: "'f quantization" and q' :: "'g quantization"
  assumes "layer_names_' q = layer_names_' q'" "il_in_' q = il_in_' q'"
    "il_out_' q = il_out_' q'" "il_params_' q = il_params_' q'"
  shows "EditNetDescriptionDynamicFixedPoint q param l2q np bc bf bi bo =
         EditNetDescriptionDynamicFixedPoint q' param l2q np bc bf bi bo"
  by (simp add: EditNetDescriptionDynamicFixedPoint_def edit_layers_cong[OF assms])

lemmas example_defs = example_net_def example_q_def example_measured_def example_calibrated_def
  Quantization_def example_quantized_def quantized_def

lemmas edit_defs = EditNetDescriptionDynamicFixedPoint_def edit_layer_def quantize_layer_def
  quantize_parameters_def quantize_activations_def GetIntegerLengthParams_def
  GetIntegerLengthIn_def GetIntegerLengthOut_def vec_at_def int_sub_def in_int_range_def
  empty_quantization_parameter_def

lemma example_edit:
  "EditNetDescriptionDynamicFixedPoint example_calibrated example_net
     ''Convolution_and_InnerProduct'' ''Parameters_and_Activations'' 8 8 8 8 = Inr example_quantized"
  by (simp add: example_defs edit_defs setters)

subsection \<open>The lookups\<close>

text \<open>
  Claim C2 says that each of the three lookups fails with a NotFound condition when the
  layer name is not recorded. It does not hold: the lookups have no such condition. In
  the example, \<open>pool1\<close> is not among the two recorded names, and each lookup indexes
  its vector of two integer lengths at position 2, past its end.
\<close>

theorem lookup_unknown_name_counterexample:
  "''pool1'' \<notin> set (layer_names_' example_calibrated) \<and>
   GetIntegerLengthParams example_calibrated ''pool1'' \<noteq> Inl (NotFound ''pool1'') \<and>
   GetIntegerLengthParams example_calibrated ''pool1'' = Inl (OutOfRange 2) \<and>
   GetIntegerLengthIn example_calibrated ''pool1'' = Inl (OutOfRange 2) \<and>
   GetIntegerLengthOut example_calibrated ''pool1'' = Inl (OutOfRange 2)"
  by (simp add: example_defs GetIntegerLengthParams_def GetIntegerLengthIn_def
      GetIntegerLengthOut_def vec_at_def)

text \<open>
  Claim C2, amended: when one integer length of each kind is stored per recorded name,
  each lookup returns, for a recorded name, the integer length at the position of the
  first occurrence of the name; for a name that is not recorded, each lookup reads its
  vector at the position \<open>layer_names_.size()\<close>, past the end and unchecked, and no
  lookup ever ends in NotFound.
\<close>

theorem lookup_first_occurrence_or_past_end:
  assumes "length (il_params_' q) = length (layer_names_' q)"
    and "length (il_in_' q) = length (layer_names_' q)"
    and "length (il_out_' q) = length (layer_names_' q)"
  shows "(n \<in> set (layer_names_' q) \<longrightarrow>
      (\<exists>i < length (layer_names_' q). layer_names_' q ! i = n \<and>
          n \<notin> set (take i (layer_names_' q)) \<and>
          GetIntegerLengthParams q n = Inr (il_params_' q ! i) \<and>
          GetIntegerLengthIn q n = Inr (il_in_' q ! i) \<and>
          GetIntegerLengthOut q n = Inr (il_out_' q ! i))) \<and>
    (n \<notin> set (layer_names_' q) \<longrightarrow>
      GetIntegerLengthParams q n = Inl (OutOfRange (int (length (layer_names_' q)))) \<and>
      GetIntegerLengthIn q n = Inl (OutOfRange (int (length (layer_names_' q)))) \<and>
      GetIntegerLengthOut q n = Inl (OutOfRange (int (length (layer_names_' q))))) \<and>
    GetIntegerLengthParams q n \<noteq> Inl (NotFound m) \<and>
    GetIntegerLengthIn q n \<noteq> Inl (NotFound m) \<and>
    GetIntegerLengthOut q n \<noteq> Inl (NotFound m)"
proof -
  let ?i = "find_pos (layer_names_' q) n"
  have known: "n \<in> set (layer_names_' q) \<Longrightarrow> ?thesis"
  proof -
    assume n: "n \<in> set (layer_names_' q)"
    from find_pos_present[OF n] have i: "?i < length (layer_names_' q)"
      "layer_names_' q ! ?i = n" by simp_all
    have "n \<notin> set (take ?i (layer_names_' q))"
    proof
      assume "n \<in> set (take ?i (layer_names_' q))"
      then obtain j where j: "j < ?i" "layer_names_' q ! j = n"
        using i(1) by (auto simp: in_set_conv_nth)
      have "\<And>xs. j < find_pos xs n \<Longrightarrow> xs ! j \<noteq> n"
      proof -
        fix xs show "j < find_pos xs n \<Longrightarrow> xs ! j \<noteq> n"
          by (induction xs arbitrary: j) (auto simp: nth_Cons split: nat.splits if_splits)
      qed
      with j show False by blast
    qed
    with i n assms show ?thesis
      by (auto simp: GetIntegerLengthParams_def GetIntegerLengthIn_def
          GetIntegerLengthOut_def vec_at_def intro!: exI[of _ ?i])
  qed
  have unknown: "n \<notin> set (layer_names_' q) \<Longrightarrow> ?thesis"
    using assms
    by (simp add: find_pos_absent GetIntegerLengthParams_def GetIntegerLengthIn_def
        GetIntegerLengthOut_def vec_at_def)
  from known unknown show ?thesis by blast
qed

theorem lookup_first_occurrence_or_past_end_witness:
  "length (il_params_' example_calibrated) = length (layer_names_' example_calibrated) \<and>
   length (il_in_' example_calibrated) = length (layer_names_' example_calibrated) \<and>
   length (il_out_' example_calibrated) = length (layer_names_' example_calibrated) \<and>
   ''ip1'' \<in> set (layer_names_' example_calibrated) \<and>
   ''pool1'' \<notin> set (layer_names_' example_calibrated) \<and>
   (\<exists>i < length (layer_names_' example_calibrated).
      layer_names_' example_calibrated ! i = ''ip1'' \<and>
      GetIntegerLengthParams example_calibrated ''ip1'' = Inr (il_params_' example_calibrated ! i)) \<and>
   GetIntegerLengthParams example_calibrated ''pool1'' = Inl (OutOfRange 2)"
proof -
  have h: "length (il_params_' example_calibrated) = length (layer_names_' example_calibrated)"
    "length (il_in_' example_calibrated) = length (layer_names_' example_calibrated)"
    "length (il_out_' example_calibrated) = length (layer_names_' example_calibrated)"
    by (simp_all add: example_defs)
  have k: "''ip1'' \<in> set (layer_names_' example_calibrated)"
    "''pool1'' \<notin> set (layer_names_' example_calibrated)"
    "int (length (layer_names_' example_calibrated)) = 2"
    by (simp_all add: example_defs)
  from lookup_first_occurrence_or_past_end[OF h, of "''ip1''"]
    lookup_first_occurrence_or_past_end[OF h, of "''pool1''"] h k
  show ?thesis by auto
qed

subsection \<open>The edited description\<close>

text \<open>
  Claim C4: in the edited description, every layer that the loop selects has, for each
  aspect named in \<open>net_part\<close>, the given bit-width stored and the fractional length
  equal to that bit-width minus the integer length looked up under the layer's name;
  fractional length plus integer length is the bit-width. The bit-width of the
  parameters is \<open>bw_conv\<close> for a layer that the convolution test selects and \<open>bw_fc\<close>
  otherwise.
\<close>

theorem fractional_length_is_bitwidth_minus_integer_length:
  assumes "EditNetDescriptionDynamicFixedPoint q param l2q np bc bf bi bo = Inr param'"
    and "i < length (layer param)"
    and "conv_selected l2q (type (layer param ! i)) \<or> fc_selected l2q (type (layer param ! i))"
  shows "(contains np ''Parameters'' \<longrightarrow>
      (\<exists>qp il fl bw. quantization_param (layer param' ! i) = Some qp \<and>
         GetIntegerLengthParams q (name (layer param' ! i)) = Inr il \<and>
         bw = (if conv_selected l2q (type (layer param ! i)) then bc else bf) \<and>
         fl_params qp = Some fl \<and> bw_params qp = Some bw \<and> fl = bw - il \<and> fl + il = bw)) \<and>
    (contains np ''Activations'' \<longrightarrow>
      (\<exists>qp il_i il_o fl_i fl_o. quantization_param (layer param' ! i) = Some qp \<and>
         GetIntegerLengthIn q (name (layer param' ! i)) = Inr il_i \<and>
         GetIntegerLengthOut q (name (layer param' ! i)) = Inr il_o \<and>
         fl_layer_in qp = Some fl_i \<and> bw_layer_in qp = Some bi \<and> fl_i = bi - il_i \<and>
         fl_i + il_i = bi \<and>
         fl_layer_out qp = Some fl_o \<and> bw_layer_out qp = Some bo \<and> fl_o = bo - il_o \<and>
         fl_o + il_o = bo))"
proof -
  from assms(1) obtain ls where ls: "edit_layers q l2q np bc bf bi bo (layer param) = Inr ls"
    and p': "param' = param\<lparr>layer := ls\<rparr>"
    by (auto simp: Edit_Inr)
  from ls assms(2) have el: "edit_layer q l2q np bc bf bi bo (layer param ! i) = Inr (ls ! i)"
    by (simp add: edit_layers_Inr)
  from edit_layer_frame[OF el] have nm: "name (ls ! i) = name (layer param ! i)" by simp
  show ?thesis
    using edit_layer_written_params[OF el _ assms(3)]
      edit_layer_written_activations[OF el _ assms(3)] nm p'
    by auto
qed

theorem fractional_length_is_bitwidth_minus_integer_length_witness:
  "EditNetDescriptionDynamicFixedPoint example_calibrated example_net
     ''Convolution_and_InnerProduct'' ''Parameters_and_Activations'' 8 8 8 8
     = Inr example_quantized \<and>
   0 < length (layer example_net) \<and>
   conv_selected ''Convolution_and_InnerProduct'' (type (layer example_net ! 0)) \<and>
   contains ''Parameters_and_Activations'' ''Parameters'' \<and>
   contains ''Parameters_and_Activations'' ''Activations'' \<and>
   (\<exists>qp il fl. quantization_param (layer example_quantized ! 0) = Some qp \<and>
      GetIntegerLengthParams example_calibrated (name (layer example_quantized ! 0)) = Inr il \<and>
      fl_params qp = Some fl \<and> bw_params qp = Some 8 \<and> fl = 8 - il \<and> fl + il = 8) \<and>
   (\<exists>qp il_i il_o fl_i fl_o. quantization_param (layer example_quantized ! 0) = Some qp \<and>
      GetIntegerLengthIn example_calibrated (name (layer example_quantized ! 0)) = Inr il_i \<and>
      GetIntegerLengthOut example_calibrated (name (layer example_quantized ! 0)) = Inr il_o \<and>
      fl_layer_in qp = Some fl_i \<and> fl_i + il_i = 8 \<and>
      fl_layer_out qp = Some fl_o \<and> fl_o + il_o = 8)"
proof -
  have len: "0 < length (layer example_net)" by (simp add: example_net_def)
  have sel: "conv_selected ''Convolution_and_InnerProduct'' (type (layer example_net ! 0))"
    by (simp add: example_net_def conv_selected_def)
  have parts: "contains ''Parameters_and_Activations'' ''Parameters''"
    "contains ''Parameters_and_Activations'' ''Activations''" by simp_all
  from fractional_length_is_bitwidth_minus_integer_length[OF example_edit len disjI1[OF sel]]
    parts sel
  have "(\<exists>qp il fl. quantization_param (layer example_quantized ! 0) = Some qp \<and>
      GetIntegerLengthParams example_calibrated (name (layer example_quantized ! 0)) = Inr il \<and>
      fl_params qp = Some fl \<and> bw_params qp = Some 8 \<and> fl = 8 - il \<and> fl + il = 8) \<and>
   (\<exists>qp il_i il_o fl_i fl_o. quantization_param (layer example_quantized ! 0) = Some qp \<and>
      GetIntegerLengthIn example_calibrated (name (layer example_quantized ! 0)) = Inr il_i \<and>
      GetIntegerLengthOut example_calibrated (name (layer example_quantized ! 0)) = Inr il_o \<and>
      fl_layer_in qp = Some fl_i \<and> fl_i + il_i = 8 \<and>
      fl_layer_out qp = Some fl_o \<and> fl_o + il_o = 8)"
    by auto
  with example_edit len sel parts show ?thesis by blast
qed


text \<open>
  Claim C8: editing keeps the number and the order of the layers and everything of the
  description outside the layers; a layer that neither test selects is unchanged; in
  any layer only the type and the quantization parameters can differ, and within the
  quantization parameters nothing but the six fields of bit-widths and fractional
  lengths.
\<close>

theorem edit_changes_only_type_and_quantization_of_selected_layers:
  assumes "EditNetDescriptionDynamicFixedPoint q param l2q np bc bf bi bo = Inr param'"
  shows "length (layer param') = length (layer param) \<and>
    map name (layer param') = map name (layer param) \<and>
    state param' = state param \<and> net_rest param' = net_rest param \<and>
    (\<forall>i < length (layer param).
       (\<not> conv_selected l2q (type (layer param ! i)) \<and>
        \<not> fc_selected l2q (type (layer param ! i)) \<longrightarrow> layer param' ! i = layer param ! i) \<and>
       layer param' ! i =
         (layer param ! i)\<lparr>type := type (layer param' ! i),
            quantization_param := quantization_param (layer param' ! i)\<rparr> \<and>
       qp_rest (mutable_quantization_param (layer param' ! i)) =
         qp_rest (mutable_quantization_param (layer param ! i)))"
proof -
  from assms obtain ls where ls: "edit_layers q l2q np bc bf bi bo (layer param) = Inr ls"
    and p': "param' = param\<lparr>layer := ls\<rparr>"
    by (auto simp: Edit_Inr)
  from ls have len: "length ls = length (layer param)"
    and el: "\<And>i. i < length (layer param) \<Longrightarrow>
      edit_layer q l2q np bc bf bi bo (layer param ! i) = Inr (ls ! i)"
    by (simp_all add: edit_layers_Inr)
  have names: "map name ls = map name (layer param)"
  proof (rule nth_equalityI)
    show "length (map name ls) = length (map name (layer param))" using len by simp
  next
    fix i assume "i < length (map name ls)"
    then have i: "i < length (layer param)" using len by simp
    from edit_layer_frame[OF el[OF i]] i len
    show "map name ls ! i = map name (layer param) ! i" by simp
  qed
  have each: "(\<not> conv_selected l2q (type (layer param ! i)) \<and>
        \<not> fc_selected l2q (type (layer param ! i)) \<longrightarrow> ls ! i = layer param ! i) \<and>
       ls ! i = (layer param ! i)\<lparr>type := type (ls ! i),
            quantization_param := quantization_param (ls ! i)\<rparr> \<and>
       qp_rest (mutable_quantization_param (ls ! i)) =
         qp_rest (mutable_quantization_param (layer param ! i))"
    if "i < length (layer param)" for i
    using edit_layer_frame[OF el[OF that]] el[OF that]
    by (auto simp: edit_layer_unselected)
  from len names each p' show ?thesis by simp
qed

theorem edit_changes_only_type_and_quantization_of_selected_layers_witness:
  "EditNetDescriptionDynamicFixedPoint example_calibrated example_net
     ''Convolution_and_InnerProduct'' ''Parameters_and_Activations'' 8 8 8 8
     = Inr example_quantized \<and>
   length (layer example_quantized) = length (layer example_net) \<and>
   map name (layer example_quantized) = map name (layer example_net) \<and>
   (1::nat) < length (layer example_net) \<and>
   \<not> conv_selected ''Convolution_and_InnerProduct'' (type (layer example_net ! 1)) \<and>
   \<not> fc_selected ''Convolution_and_InnerProduct'' (type (layer example_net ! 1)) \<and>
   layer example_quantized ! 1 = layer example_net ! 1 \<and>
   layer example_quantized ! 0 =
     (layer example_net ! 0)\<lparr>type := type (layer example_quantized ! 0),
        quantization_param := quantization_param (layer example_quantized ! 0)\<rparr>"
proof -
  have len: "(1::nat) < length (layer example_net)" "(0::nat) < length (layer example_net)"
    by (simp_all add: example_net_def)
  have unsel: "\<not> conv_selected ''Convolution_and_InnerProduct'' (type (layer example_net ! 1))"
    "\<not> fc_selected ''Convolution_and_InnerProduct'' (type (layer example_net ! 1))"
    by (simp_all add: example_net_def conv_selected_def fc_selected_def)
  from edit_changes_only_type_and_quantization_of_selected_layers[OF example_edit] len unsel
  show ?thesis using example_edit by blast
qed

text \<open>
  Claim C9: the result of the edit is a function of the description, the two selecting
  strings, the four bit-widths and the recorded names and integer lengths. Two objects
  that agree on the names and the integer lengths give the same result, whatever their
  other members and their scores are.
\<close>

theorem edit_is_deterministic:
  fixes q :: "'f quantization" and q' :: "'g quantization"
  assumes "layer_names_' q = layer_names_' q'" and "il_in_' q = il_in_' q'"
    and "il_out_' q = il_out_' q'" and "il_params_' q = il_params_' q'"
  shows "EditNetDescriptionDynamicFixedPoint q param l2q np bc bf bi bo =
         EditNetDescriptionDynamicFixedPoint q' param l2q np bc bf bi bo"
  by (rule Edit_cong[OF assms])

theorem edit_is_deterministic_witness:
  "layer_names_' (example_calibrated\<lparr>iterations_' := 7, trace := [ForwardPass]\<rparr>)
     = layer_names_' example_calibrated \<and>
   il_in_' (example_calibrated\<lparr>iterations_' := 7, trace := [ForwardPass]\<rparr>)
     = il_in_' example_calibrated \<and>
   il_out_' (example_calibrated\<lparr>iterations_' := 7, trace := [ForwardPass]\<rparr>)
     = il_out_' example_calibrated \<and>
   il_params_' (example_calibrated\<lparr>iterations_' := 7, trace := [ForwardPass]\<rparr>)
     = il_params_' example_calibrated \<and>
   EditNetDescriptionDynamicFixedPoint
     (example_calibrated\<lparr>iterations_' := 7, trace := [ForwardPass]\<rparr>) example_net
     ''Convolution_and_InnerProduct'' ''Parameters_and_Activations'' 8 8 8 8
     = Inr example_quantized"
  using edit_is_deterministic[of "example_calibrated\<lparr>iterations_' := 7, trace := [ForwardPass]\<rparr>"
      example_calibrated example_net "''Convolution_and_InnerProduct''"
      "''Parameters_and_Activations''" 8 8 8 8] example_edit
  by simp

text \<open>
  Claim C10: editing the edited description again, with the same arguments and the same
  object, gives the edited description.
\<close>

theorem edit_is_idempotent:
  assumes "EditNetDescriptionDynamicFixedPoint q param l2q np bc bf bi bo = Inr param'"
  shows "EditNetDescriptionDynamicFixedPoint q param' l2q np bc bf bi bo = Inr param'"
proof -
  from assms obtain ls where ls: "edit_layers q l2q np bc bf bi bo (layer param) = Inr ls"
    and p': "param' = param\<lparr>layer := ls\<rparr>"
    by (auto simp: Edit_Inr)
  from ls have "edit_layers q l2q np bc bf bi bo ls = Inr ls"
    by (auto simp: edit_layers_Inr intro: edit_layer_idem)
  with p' show ?thesis by (simp add: Edit_Inr)
qed

theorem edit_is_idempotent_witness:
  "EditNetDescriptionDynamicFixedPoint example_calibrated example_net
     ''Convolution_and_InnerProduct'' ''Parameters_and_Activations'' 8 8 8 8
     = Inr example_quantized \<and>
   EditNetDescriptionDynamicFixedPoint example_calibrated example_quantized
     ''Convolution_and_InnerProduct'' ''Parameters_and_Activations'' 8 8 8 8
     = Inr example_quantized"
  using edit_is_idempotent[OF example_edit] example_edit by simp

subsection \<open>Integer lengths\<close>

lemma ceiling_log2_eq:
  fixes x :: real
  assumes "2 ^ n < x" "x \<le> 2 ^ Suc n"
  shows "\<lceil>log 2 x\<rceil> = int (Suc n)"
proof (rule ceiling_unique)
  have x: "0 < x" using assms(1) by (meson less_trans zero_less_numeral zero_less_power)
  from less_log_of_power[OF assms(1)] show "of_int (int (Suc n)) - 1 < log 2 x" by simp
  from assms(2) x have "log 2 x \<le> real (Suc n)"
    by (simp only: log_le_iff[of 2 x] powr_realpow)
  then show "log 2 x \<le> of_int (int (Suc n))" by simp
qed

lemma cast_int_of_int:
  "in_int_range z \<Longrightarrow> cast_int (Finite (of_int z)) = Inr z"
  by (simp add: Let_def)

lemma spec_at_2: "spec_integer_length 2 = 2"
  using ceiling_log2_eq[of 1 "2 + 1 / 10 ^ 8 + 1"] by (simp add: spec_integer_length_def)

lemma spec_at_0: "spec_integer_length 0 = 1"
  using ceiling_log2_eq[of 0 "0 + 1 / 10 ^ 8 + 1"] by (simp add: spec_integer_length_def)

lemma params_at_2: "integer_length_params 2 = Inr 3"
proof -
  have "\<lceil>(1::real) + 1 / 10 ^ 8 + 1\<rceil> = 3" by (simp add: ceiling_eq_iff)
  then show ?thesis
    by (simp add: integer_length_params_def log2_def in_int_range_def Let_def)
qed

lemma params_at_0: "integer_length_params 0 = Inl FloatToIntUndefined"
  by (simp add: integer_length_params_def log2_def)

lemma integer_length_in_spec:
  assumes "0 \<le> m" "m \<le> 2 ^ 128"
  shows "integer_length_in m = Inr (spec_integer_length m)"
    and "integer_length_out m = Inr (spec_integer_length m)"
    and "1 \<le> spec_integer_length m" and "spec_integer_length m \<le> 129"
proof -
  let ?x = "m + 1 / 10 ^ 8 + 1"
  have x: "1 < ?x" "?x \<le> 2 ^ 129" using assms by simp_all
  then have pos: "0 < ?x" by linarith
  from x(1) have "0 < log 2 ?x" by simp
  then show lo: "1 \<le> spec_integer_length m"
    by (simp add: spec_integer_length_def)
  from x(2) pos have "log 2 ?x \<le> real 129"
    by (simp only: log_le_iff[of 2 ?x] powr_realpow)
  then have "log 2 ?x \<le> 129" by simp
  then show hi: "spec_integer_length m \<le> 129"
    by (simp add: spec_integer_length_def ceiling_le_iff)
  from lo hi have r: "in_int_range (spec_integer_length m)" by (simp add: in_int_range_def)
  from pos cast_int_of_int[OF r]
  show "integer_length_in m = Inr (spec_integer_length m)"
    "integer_length_out m = Inr (spec_integer_length m)"
    by (simp_all add: integer_length_in_def integer_length_out_def log2_def
        spec_integer_length_def del: cast_int.simps)
qed

text \<open>
  Claim C1 says that all three integer lengths are \<open>ceil(log2(max + \<epsilon> + 1))\<close> and are
  finite integers, also for a maximum of 0. The lines for \<^verbatim>\<open>max_in_\<close> and \<^verbatim>\<open>max_out_\<close>
  compute that (\<open>integer_length_in_spec\<close>). The line for \<^verbatim>\<open>max_params_\<close> closes the
  parenthesis of \<^verbatim>\<open>log2\<close> before \<open>\<epsilon>\<close> and 1 are added: for a maximum of 2 it
  gives 3 where the formula gives 2, and for a maximum of 0 it casts minus infinity
  to \<^verbatim>\<open>int\<close> where the formula gives 1.
\<close>

theorem integer_length_params_misses_formula:
  "integer_length_params 2 = Inr 3 \<and> spec_integer_length 2 = 2 \<and>
   integer_length_params 0 = Inl FloatToIntUndefined \<and> spec_integer_length 0 = 1"
  by (simp add: params_at_2 params_at_0 spec_at_2 spec_at_0)

subsection \<open>Scores\<close>

lemma accumulate_blob_first:
  "accumulate_blob add True v (ts, idx) = Inr (ts @ v, idx + length v)"
  by (induction v arbitrary: ts idx) simp_all

lemma accumulate_result_first:
  "accumulate_result add True r (ts, idx) = Inr (ts @ concat r, idx + length (concat r))"
  by (induction r arbitrary: ts idx) (simp_all add: accumulate_blob_first)

lemma accumulate_blob_later:
  assumes "idx + length v \<le> length ts"
  shows "\<exists>ts'. accumulate_blob add False v (ts, idx) = Inr (ts', idx + length v) \<and>
     length ts' = length ts \<and>
     (\<forall>p < length ts. ts' ! p =
        (if idx \<le> p \<and> p < idx + length v then add (ts ! p) (v ! (p - idx)) else ts ! p))"
  using assms
proof (induction v arbitrary: ts idx)
  case Nil
  then show ?case by auto
next
  case (Cons s v)
  let ?ts = "ts[idx := add (ts ! idx) s]"
  from Cons.prems have "Suc idx + length v \<le> length ?ts" by simp
  from Cons.IH[OF this] obtain ts' where
    1: "accumulate_blob add False v (?ts, Suc idx) = Inr (ts', Suc idx + length v)"
    and 2: "length ts' = length ?ts"
    and 3: "\<forall>p < length ?ts. ts' ! p =
        (if Suc idx \<le> p \<and> p < Suc idx + length v then add (?ts ! p) (v ! (p - Suc idx))
         else ?ts ! p)"
    by blast
  have "\<forall>p < length ts. ts' ! p =
        (if idx \<le> p \<and> p < idx + length (s # v) then add (ts ! p) ((s # v) ! (p - idx))
         else ts ! p)"
  proof (intro allI impI)
    fix p assume p: "p < length ts"
    show "ts' ! p = (if idx \<le> p \<and> p < idx + length (s # v)
        then add (ts ! p) ((s # v) ! (p - idx)) else ts ! p)"
    proof (cases "p = idx")
      case True
      with 3 p show ?thesis by simp
    next
      case False
      show ?thesis
      proof (cases "idx < p")
        case True
        then have "p - idx = Suc (p - Suc idx)" by simp
        with 3 p True show ?thesis by simp
      next
        case lt: False
        with False 3 p show ?thesis by simp
      qed
    qed
  qed
  with 1 2 Cons.prems show ?case by simp
qed

lemma accumulate_result_later:
  assumes "idx + length (concat r) \<le> length ts"
  shows "\<exists>ts'. accumulate_result add False r (ts, idx) = Inr (ts', idx + length (concat r)) \<and>
     length ts' = length ts \<and>
     (\<forall>p < length ts. ts' ! p =
        (if idx \<le> p \<and> p < idx + length (concat r) then add (ts ! p) (concat r ! (p - idx))
         else ts ! p))"
  using assms
proof (induction r arbitrary: ts idx)
  case Nil
  then show ?case by auto
next
  case (Cons v r)
  from Cons.prems have v: "idx + length v \<le> length ts" by simp
  from accumulate_blob_later[OF v, of add] obtain ts1 where
    1: "accumulate_blob add False v (ts, idx) = Inr (ts1, idx + length v)"
    and 2: "length ts1 = length ts"
    and 3: "\<forall>p < length ts. ts1 ! p =
        (if idx \<le> p \<and> p < idx + length v then add (ts ! p) (v ! (p - idx)) else ts ! p)"
    by blast
  from Cons.prems 2 have "(idx + length v) + length (concat r) \<le> length ts1" by simp
  from Cons.IH[OF this] obtain ts' where
    4: "accumulate_result add False r (ts1, idx + length v)
          = Inr (ts', idx + length v + length (concat r))"
    and 5: "length ts' = length ts1"
    and 6: "\<forall>p < length ts1. ts' ! p =
        (if idx + length v \<le> p \<and> p < idx + length v + length (concat r)
         then add (ts1 ! p) (concat r ! (p - (idx + length v))) else ts1 ! p)"
    by blast
  have "\<forall>p < length ts. ts' ! p =
        (if idx \<le> p \<and> p < idx + length (concat (v # r))
         then add (ts ! p) (concat (v # r) ! (p - idx)) else ts ! p)"
  proof (intro allI impI)
    fix p assume p: "p < length ts"
    show "ts' ! p = (if idx \<le> p \<and> p < idx + length (concat (v # r))
         then add (ts ! p) (concat (v # r) ! (p - idx)) else ts ! p)"
      using 3 6 2 p by (auto simp: nth_append)
  qed
  with 1 4 5 2 show ?case by (simp add: add.assoc)
qed

lemma accumulate_batch_later:
  assumes "length (concat r) = length ts"
  shows "accumulate_result add False r (ts, 0) = Inr (map2 add ts (concat r), length ts)"
proof -
  from assms have "0 + length (concat r) \<le> length ts" by simp
  from accumulate_result_later[OF this, of add] obtain ts' where
    1: "accumulate_result add False r (ts, 0) = Inr (ts', length (concat r))"
    and 2: "length ts' = length ts"
    and 3: "\<forall>p < length ts. ts' ! p =
        (if p < length (concat r) then add (ts ! p) (concat r ! p) else ts ! p)"
    by auto
  have "ts' = map2 add ts (concat r)"
    using 2 3 assms by (intro nth_equalityI) simp_all
  with 1 assms show ?thesis by simp
qed


lemma batches_loop_later:
  assumes "\<forall>r \<in> set (forward_results eng n net). length (concat r) = length ts"
  shows "fst (batches_loop eng do_stats n (Suc i) net q ts) =
     Inr (foldl (\<lambda>t r. map2 (score_plus eng) t (concat r)) ts (forward_results eng n net))"
  using assms
proof (induction n arbitrary: i net q ts)
  case 0
  show ?case by simp
next
  case (Suc n)
  obtain result net1 where f: "Forward eng net = (result, net1)" by (cases "Forward eng net")
  with Suc.prems have r: "length (concat result) = length ts"
    and rest: "\<forall>r \<in> set (forward_results eng n net1).
        length (concat r) = length (map2 (score_plus eng) ts (concat result))"
    by simp_all
  show ?case
    using f accumulate_batch_later[OF r] Suc.IH[OF rest] by (simp add: Let_def)
qed

lemma foldl_map2_length:
  assumes "\<forall>r \<in> set rs. length (concat r) = length ts"
  shows "length (foldl (\<lambda>t r. map2 add t (concat r)) ts rs) = length ts"
  using assms by (induction rs arbitrary: ts) simp_all

lemma foldl_map2_nth:
  assumes "\<forall>r \<in> set rs. length (concat r) = length ts" "p < length ts"
  shows "foldl (\<lambda>t r. map2 add t (concat r)) ts rs ! p =
     foldl add (ts ! p) (map (\<lambda>r. concat r ! p) rs)"
  using assms by (induction rs arbitrary: ts) simp_all

lemma batches_loop_scores:
  assumes "\<forall>r \<in> set (forward_results eng (Suc n) net). length (concat r) = L"
  shows "\<exists>ts. fst (batches_loop eng do_stats (Suc n) 0 net q []) = Inr ts \<and> length ts = L \<and>
     (\<forall>p < L. ts ! p =
        foldl (score_plus eng) (concat (hd (forward_results eng (Suc n) net)) ! p)
          (map (\<lambda>r. concat r ! p) (tl (forward_results eng (Suc n) net))))"
proof -
  obtain result net1 where f: "Forward eng net = (result, net1)" by (cases "Forward eng net")
  with assms have r: "length (concat result) = L"
    and rest: "\<forall>r \<in> set (forward_results eng n net1). length (concat r) = length (concat result)"
    by simp_all
  let ?ts = "foldl (\<lambda>t r. map2 (score_plus eng) t (concat r)) (concat result)
      (forward_results eng n net1)"
  have "fst (batches_loop eng do_stats (Suc n) 0 net q []) = Inr ?ts"
    using f batches_loop_later[OF rest] by (simp add: accumulate_result_first Let_def)
  moreover have "?ts ! p =
        foldl (score_plus eng) (concat result ! p)
          (map (\<lambda>r. concat r ! p) (forward_results eng n net1))" if "p < L" for p
    using foldl_map2_nth[OF rest, of p "score_plus eng"] that r by simp
  moreover have "length ?ts = L"
    using foldl_map2_length[OF rest, of "score_plus eng"] r by simp
  ultimately show ?thesis using f by auto
qed


text \<open>
  Claim C6: when every batch has the same number \<open>L\<close> of output elements and the
  designated index lies below \<open>L\<close>, the reported accuracy is the score of the first
  batch at that index, to which the scores of the later batches at the same index are
  added in order, divided by the number of iterations. For one iteration it is the
  score of the batch at the index, divided by 1. Addition and division are those of
  the engine.
\<close>

theorem accuracy_is_mean_of_designated_output:
  assumes "0 < iterations"
    and "\<forall>r \<in> set (forward_results eng (nat iterations) caffe_net). length (concat r) = L"
    and "0 \<le> score_number" and "nat score_number < L"
  shows "fst (RunForwardBatches eng iterations caffe_net do_stats score_number q) =
      Inr (score_divide eng
             (foldl (score_plus eng)
                (concat (hd (forward_results eng (nat iterations) caffe_net)) ! nat score_number)
                (map (\<lambda>r. concat r ! nat score_number)
                   (tl (forward_results eng (nat iterations) caffe_net))))
             iterations) \<and>
    (iterations = 1 \<longrightarrow>
       fst (RunForwardBatches eng iterations caffe_net do_stats score_number q) =
       Inr (score_divide eng (concat (fst (Forward eng caffe_net)) ! nat score_number) 1))"
proof -
  from assms(1) obtain n where n: "nat iterations = Suc n" by (cases "nat iterations") auto
  from batches_loop_scores[OF assms(2)[unfolded n], of do_stats q] obtain ts where
    1: "fst (batches_loop eng do_stats (Suc n) 0 caffe_net q []) = Inr ts"
    and 2: "length ts = L"
    and 3: "\<forall>p < L. ts ! p =
        foldl (score_plus eng) (concat (hd (forward_results eng (Suc n) caffe_net)) ! p)
          (map (\<lambda>r. concat r ! p) (tl (forward_results eng (Suc n) caffe_net)))"
    by blast
  from 2 assms(3,4) have "vec_at ts score_number = Inr (ts ! nat score_number)"
    by (simp add: vec_at_def)
  with 1 3 assms(4) have main:
    "fst (RunForwardBatches eng iterations caffe_net do_stats score_number q) =
      Inr (score_divide eng
             (foldl (score_plus eng)
                (concat (hd (forward_results eng (Suc n) caffe_net)) ! nat score_number)
                (map (\<lambda>r. concat r ! nat score_number)
                   (tl (forward_results eng (Suc n) caffe_net))))
             iterations)"
    by (cases "batches_loop eng do_stats (Suc n) 0 caffe_net q []")
      (simp add: RunForwardBatches_def n)
  have "n = 0" if "iterations = 1" using that n by simp
  with main n show ?thesis by (auto split: prod.splits)
qed

theorem accuracy_is_mean_of_designated_output_witness:
  "(0::int) < 2 \<and>
   map (\<lambda>r. length (concat r)) (forward_results example_engine (nat 2) 0) = [3, 3] \<and>
   (0::int) \<le> 0 \<and> nat 0 < (3::nat) \<and>
   fst (RunForwardBatches example_engine 2 0 False 0 example_q) = Inr (1 / 8) \<and>
   forward_results example_engine (nat 2) 0 = [[[0], [1 / 2, 1 / 8]], [[1 / 4], [1 / 2, 1 / 8]]]"
proof -
  have rs: "forward_results example_engine 2 0 =
      [[[0], [1 / 2, 1 / 8]], [[1 / 4], [1 / 2, 1 / 8]]]"
    by (simp add: example_engine_def eval_nat_numeral)
  have div: "score_divide example_engine x n = x / real_of_int n"
    and plus: "score_plus example_engine = (+)" for x n
    by (simp_all add: example_engine_def)
  from accuracy_is_mean_of_designated_output[of 2 example_engine 0 3 0 False example_q]
  show ?thesis by (simp add: rs div plus)
qed

lemma CheckWritePermissions_state:
  "CheckWritePermissions eng path q = (r, q') \<Longrightarrow>
     (r = Inr () \<and> probe_good eng path \<and> q' = q\<lparr>trace := trace q @ [WriteProbed path]\<rparr>) \<or>
     (r = Inl MissingWritePermissions \<and> \<not> probe_good eng path \<and> q' = q)"
  by (auto simp: CheckWritePermissions_def split: if_splits)

lemma SetGpu_state:
  "SetGpu eng q = (r, q') \<Longrightarrow>
     (\<exists>d. r = Inr () \<and> q' = q\<lparr>trace := trace q @ [DeviceSet d]\<rparr>) \<or>
     (\<exists>e. r = Inl e \<and> (e = NoGpu \<or> (\<exists>s. e = BadLexicalCast s)) \<and> q' = q)"
proof -
  have "lexical_casts cast ss = Inl e \<Longrightarrow> \<exists>s. e = BadLexicalCast s" for cast ss e
    by (induction ss) (auto split: option.splits sum.splits)
  then show "SetGpu eng q = (r, q') \<Longrightarrow> ?thesis"
    by (auto simp: SetGpu_def split: sum.splits if_splits option.splits)
qed

text \<open>
  Claim C5 says that a run with \<open>iterations = 0\<close> is rejected as a configuration error.
  It is not: with the example object and zero iterations, \<^verbatim>\<open>QuantizeNet\<close> passes the
  write probe and the device selection, loads the network, runs no batch and ends in
  the unchecked read of \<^verbatim>\<open>test_score[0]\<close> from the empty vector.
\<close>

theorem zero_iterations_counterexample:
  "iterations_' (example_q\<lparr>iterations_' := 0\<rparr>) = 0 \<and>
   fst (QuantizeNet example_engine (example_q\<lparr>iterations_' := 0\<rparr>)) \<noteq> Inl ConfigurationError \<and>
   QuantizeNet example_engine (example_q\<lparr>iterations_' := 0\<rparr>) =
     (Inl (OutOfRange 0),
      example_q\<lparr>iterations_' := 0,
        trace := [WriteProbed ''quantized.prototxt'', DeviceSet CPU,
                  NetCreated (FromFile ''lenet.prototxt''),
                  WeightsCopied ''lenet.caffemodel'']\<rparr>)"
  by (simp add: QuantizeNet_def CheckWritePermissions_def SetGpu_def RunForwardBatches_def
      vec_at_def default_score_number_def example_q_def Quantization_def example_engine_def)

text \<open>
  Claim C5, amended: a run with zero (or fewer) iterations is not rejected. No check of
  \<^verbatim>\<open>iterations\<close> exists: \<^verbatim>\<open>RunForwardBatches\<close> runs no forward pass and leaves the
  object as it is, \<^verbatim>\<open>test_score\<close> stays empty, and the run ends in the unchecked read
  of \<^verbatim>\<open>test_score[score_number]\<close>, which yields no accuracy. \<^verbatim>\<open>QuantizeNet\<close> ends the
  same way once the write probe and the device selection have passed; it never
  completes and never reports a configuration error.
\<close>

theorem zero_iterations_end_in_unchecked_read:
  "(iterations \<le> 0 \<longrightarrow>
      RunForwardBatches eng iterations caffe_net do_stats score_number q =
        (Inl (OutOfRange score_number), caffe_net, q)) \<and>
   (iterations_' q \<le> 0 \<and> CheckWritePermissions eng (model_quantized_' q) q = (Inr (), q1) \<and>
    SetGpu eng q1 = (Inr (), q2) \<longrightarrow>
      QuantizeNet eng q =
        (Inl (OutOfRange default_score_number),
         q2\<lparr>trace := trace q2 @
              [NetCreated (FromFile (model_' q)), WeightsCopied (weights_' q)]\<rparr>)) \<and>
   (iterations_' q \<le> 0 \<longrightarrow> fst (QuantizeNet eng q) \<noteq> Inr () \<and>
      fst (QuantizeNet eng q) \<noteq> Inl ConfigurationError)"
proof -
  have run: "RunForwardBatches eng i net ds sn s = (Inl (OutOfRange sn), net, s)"
    if "i \<le> 0" for i net ds sn s
    using that by (simp add: RunForwardBatches_def vec_at_def)
  have net: "QuantizeNet eng q =
        (Inl (OutOfRange default_score_number),
         q2\<lparr>trace := trace q2 @
              [NetCreated (FromFile (model_' q)), WeightsCopied (weights_' q)]\<rparr>)"
    if "iterations_' q \<le> 0" "CheckWritePermissions eng (model_quantized_' q) q = (Inr (), q1)"
      "SetGpu eng q1 = (Inr (), q2)" for q1 q2
  proof -
    from CheckWritePermissions_state[OF that(2)] SetGpu_state[OF that(3)]
    obtain d where "q2 = q\<lparr>trace := trace q @ [WriteProbed (model_quantized_' q), DeviceSet d]\<rparr>"
      and "q1 = q\<lparr>trace := trace q @ [WriteProbed (model_quantized_' q)]\<rparr>"
      by auto
    with that show ?thesis by (simp add: QuantizeNet_def run Let_def)
  qed
  have no: "fst (QuantizeNet eng q) \<noteq> Inr () \<and> fst (QuantizeNet eng q) \<noteq> Inl ConfigurationError"
    if z: "iterations_' q \<le> 0"
  proof -
    obtain r1 q1 where c: "CheckWritePermissions eng (model_quantized_' q) q = (r1, q1)"
      by (cases "CheckWritePermissions eng (model_quantized_' q) q")
    obtain r2 q2 where g: "SetGpu eng q1 = (r2, q2)" by (cases "SetGpu eng q1")
    show ?thesis
    proof (cases "r1 = Inr () \<and> r2 = Inr ()")
      case True
      with net[OF z] c g show ?thesis by simp
    next
      case False
      with CheckWritePermissions_state[OF c] SetGpu_state[OF g] c g show ?thesis
        by (auto simp: QuantizeNet_def)
    qed
  qed
  from run net no show ?thesis by blast
qed

theorem zero_iterations_end_in_unchecked_read_witness:
  "(0::int) \<le> 0 \<and> iterations_' (example_q\<lparr>iterations_' := 0\<rparr>) \<le> 0 \<and>
   RunForwardBatches example_engine 0 (5::nat) True 0 (example_q\<lparr>iterations_' := 0\<rparr>) =
     (Inl (OutOfRange 0), 5, example_q\<lparr>iterations_' := 0\<rparr>) \<and>
   CheckWritePermissions example_engine (model_quantized_' (example_q\<lparr>iterations_' := 0\<rparr>))
       (example_q\<lparr>iterations_' := 0\<rparr>) =
     (Inr (), example_q\<lparr>iterations_' := 0, trace := [WriteProbed ''quantized.prototxt'']\<rparr>) \<and>
   SetGpu example_engine
       (example_q\<lparr>iterations_' := 0, trace := [WriteProbed ''quantized.prototxt'']\<rparr>) =
     (Inr (), example_q\<lparr>iterations_' := 0,
        trace := [WriteProbed ''quantized.prototxt'', DeviceSet CPU]\<rparr>) \<and>
   QuantizeNet example_engine (example_q\<lparr>iterations_' := 0\<rparr>) =
     (Inl (OutOfRange default_score_number),
      example_q\<lparr>iterations_' := 0,
        trace := [WriteProbed ''quantized.prototxt'', DeviceSet CPU,
                  NetCreated (FromFile ''lenet.prototxt''),
                  WeightsCopied ''lenet.caffemodel'']\<rparr>) \<and>
   fst (QuantizeNet example_engine (example_q\<lparr>iterations_' := 0\<rparr>)) \<noteq> Inr () \<and>
   fst (QuantizeNet example_engine (example_q\<lparr>iterations_' := 0\<rparr>)) \<noteq> Inl ConfigurationError"
proof -
  have c: "CheckWritePermissions example_engine
       (model_quantized_' (example_q\<lparr>iterations_' := 0\<rparr>)) (example_q\<lparr>iterations_' := 0\<rparr>) =
     (Inr (), example_q\<lparr>iterations_' := 0, trace := [WriteProbed ''quantized.prototxt'']\<rparr>)"
    by (simp add: CheckWritePermissions_def example_engine_def example_q_def Quantization_def)
  have g: "SetGpu example_engine
       (example_q\<lparr>iterations_' := 0, trace := [WriteProbed ''quantized.prototxt'']\<rparr>) =
     (Inr (), example_q\<lparr>iterations_' := 0,
        trace := [WriteProbed ''quantized.prototxt'', DeviceSet CPU]\<rparr>)"
    by (simp add: SetGpu_def example_q_def Quantization_def)
  have q: "model_' (example_q\<lparr>iterations_' := 0\<rparr>) = ''lenet.prototxt''"
    "weights_' (example_q\<lparr>iterations_' := 0\<rparr>) = ''lenet.caffemodel''"
    by (simp_all add: example_q_def Quantization_def)
  from zero_iterations_end_in_unchecked_read[of 0 example_engine 5 True 0
      "example_q\<lparr>iterations_' := 0\<rparr>"
      "example_q\<lparr>iterations_' := 0, trace := [WriteProbed ''quantized.prototxt'']\<rparr>"
      "example_q\<lparr>iterations_' := 0,
        trace := [WriteProbed ''quantized.prototxt'', DeviceSet CPU]\<rparr>"] c g q
  show ?thesis by simp
qed

subsection \<open>The order of a run\<close>

lemma accumulate_blob_fault:
  "accumulate_blob add first v s = Inl e \<Longrightarrow> \<exists>i. e = OutOfRange i"
  by (induction add first v s rule: accumulate_blob.induct) (auto split: if_splits)

lemma accumulate_result_fault:
  "accumulate_result add first r s = Inl e \<Longrightarrow> \<exists>i. e = OutOfRange i"
  by (induction r arbitrary: s) (auto split: sum.splits dest: accumulate_blob_fault)

lemma batches_loop_state:
  assumes "batches_loop eng do_stats n i net q ts = (r, net', q')"
  shows "\<exists>k names m_in m_out m_params. k \<le> n \<and>
     q' = q\<lparr>layer_names_' := names, max_in_' := m_in, max_out_' := m_out,
            max_params_' := m_params,
            trace := trace q @
              concat (replicate k (ForwardPass # (if do_stats then [RangeQueried] else [])))\<rparr> \<and>
     (\<not> do_stats \<longrightarrow> q' = q\<lparr>trace := trace q @ replicate k ForwardPass\<rparr>) \<and>
     (case r of Inl e \<Rightarrow> \<exists>j. e = OutOfRange j | Inr t \<Rightarrow> k = n)"
  using assms
proof (induction n arbitrary: i net q ts)
  case 0
  then have "r = Inr ts" "q' = q" by simp_all
  then show ?case
    by (intro exI[of _ 0] exI[of _ "layer_names_' q"] exI[of _ "max_in_' q"]
        exI[of _ "max_out_' q"] exI[of _ "max_params_' q"]) simp
next
  case (Suc n)
  obtain result net1 where f: "Forward eng net = (result, net1)" by (cases "Forward eng net")
  define q2 where "q2 = (if do_stats
      then range_in_layers eng net1 (q\<lparr>trace := trace q @ [ForwardPass]\<rparr>)
      else q\<lparr>trace := trace q @ [ForwardPass]\<rparr>)"
  obtain na mi mo mp where q2: "q2 = q\<lparr>layer_names_' := na, max_in_' := mi,
            max_out_' := mo, max_params_' := mp,
            trace := trace q @ ForwardPass # (if do_stats then [RangeQueried] else [])\<rparr>"
  proof (cases do_stats)
    case True
    obtain na mi mo mp where "RangeInLayers eng net1
        (layer_names_' q, max_in_' q, max_out_' q, max_params_' q) = (na, mi, mo, mp)"
      using prod_cases4 by blast
    with True have "q2 = q\<lparr>layer_names_' := na, max_in_' := mi,
            max_out_' := mo, max_params_' := mp,
            trace := trace q @ ForwardPass # (if do_stats then [RangeQueried] else [])\<rparr>"
      by (simp add: q2_def range_in_layers_def)
    then show ?thesis by (rule that)
  next
    case False
    then have "q2 = q\<lparr>layer_names_' := layer_names_' q, max_in_' := max_in_' q,
            max_out_' := max_out_' q, max_params_' := max_params_' q,
            trace := trace q @ ForwardPass # (if do_stats then [RangeQueried] else [])\<rparr>"
      by (simp add: q2_def)
    then show ?thesis by (rule that)
  qed
  have q2n: "q2 = q\<lparr>trace := trace q @ [ForwardPass]\<rparr>" if "\<not> do_stats"
    using that by (simp add: q2_def)
  show ?case
  proof (cases "accumulate_result (score_plus eng) (i = 0) result (ts, 0)")
    case (Inl e)
    with Suc.prems f have r: "r = Inl e" and q': "q' = q2"
      by (auto simp: Let_def q2_def)
    from accumulate_result_fault[OF Inl] obtain j where "e = OutOfRange j" by blast
    with r q' q2 q2n show ?thesis
      by (intro exI[of _ 1] exI[of _ na] exI[of _ mi] exI[of _ mo] exI[of _ mp]) simp
  next
    case (Inr s)
    obtain ts' idx where s: "s = (ts', idx)" by (cases s)
    with Suc.prems f Inr have "batches_loop eng do_stats n (Suc i) net1 q2 ts' = (r, net', q')"
      by (simp add: Let_def q2_def)
    from Suc.IH[OF this] obtain k na' mi' mo' mp' where k: "k \<le> n"
      and a: "q' = q2\<lparr>layer_names_' := na', max_in_' := mi', max_out_' := mo',
            max_params_' := mp',
            trace := trace q2 @
              concat (replicate k (ForwardPass # (if do_stats then [RangeQueried] else [])))\<rparr>"
      and b: "\<not> do_stats \<longrightarrow> q' = q2\<lparr>trace := trace q2 @ replicate k ForwardPass\<rparr>"
      and c: "case r of Inl e \<Rightarrow> \<exists>j. e = OutOfRange j | Inr t \<Rightarrow> k = n"
      by blast
    have a': "q' = q\<lparr>layer_names_' := na', max_in_' := mi', max_out_' := mo',
            max_params_' := mp',
            trace := trace q @ concat (replicate (Suc k)
               (ForwardPass # (if do_stats then [RangeQueried] else [])))\<rparr>"
      unfolding a q2 by simp
    have b': "\<not> do_stats \<longrightarrow> q' = q\<lparr>trace := trace q @ replicate (Suc k) ForwardPass\<rparr>"
    proof
      assume n: "\<not> do_stats"
      with b have "q' = q2\<lparr>trace := trace q2 @ replicate k ForwardPass\<rparr>" by simp
      then show "q' = q\<lparr>trace := trace q @ replicate (Suc k) ForwardPass\<rparr>"
        unfolding q2n[OF n] by simp
    qed
    from k c have c': "Suc k \<le> Suc n"
      "case r of Inl e \<Rightarrow> \<exists>j. e = OutOfRange j | Inr t \<Rightarrow> Suc k = Suc n"
      by (auto split: sum.splits)
    from a' b' c' show ?thesis by blast
  qed
qed

lemma RunForwardBatches_state:
  assumes "RunForwardBatches eng iterations net do_stats sn q = (r, net', q')"
  shows "\<exists>k names m_in m_out m_params. k \<le> nat iterations \<and>
     q' = q\<lparr>layer_names_' := names, max_in_' := m_in, max_out_' := m_out,
            max_params_' := m_params,
            trace := trace q @
              concat (replicate k (ForwardPass # (if do_stats then [RangeQueried] else [])))\<rparr> \<and>
     (\<not> do_stats \<longrightarrow> q' = q\<lparr>trace := trace q @ replicate k ForwardPass\<rparr>) \<and>
     (case r of Inl e \<Rightarrow> \<exists>j. e = OutOfRange j | Inr a \<Rightarrow> k = nat iterations)"
proof -
  obtain r0 where b: "batches_loop eng do_stats (nat iterations) 0 net q [] = (r0, net', q')"
    and r: "case r0 of Inl e \<Rightarrow> r = Inl e | Inr t \<Rightarrow> r = Inl (OutOfRange sn) \<or> (\<exists>a. r = Inr a)"
    using assms
    by (cases "batches_loop eng do_stats (nat iterations) 0 net q []")
      (auto simp: RunForwardBatches_def vec_at_def split: sum.splits if_splits)
  from batches_loop_state[OF b] obtain k na mi mo mp where k: "k \<le> nat iterations"
    and a: "q' = q\<lparr>layer_names_' := na, max_in_' := mi, max_out_' := mo,
            max_params_' := mp,
            trace := trace q @
              concat (replicate k (ForwardPass # (if do_stats then [RangeQueried] else [])))\<rparr>"
    and n: "\<not> do_stats \<longrightarrow> q' = q\<lparr>trace := trace q @ replicate k ForwardPass\<rparr>"
    and c: "case r0 of Inl e \<Rightarrow> \<exists>j. e = OutOfRange j | Inr t \<Rightarrow> k = nat iterations"
    by blast
  from r c have "case r of Inl e \<Rightarrow> \<exists>j. e = OutOfRange j | Inr a \<Rightarrow> k = nat iterations"
    by (auto split: sum.splits)
  with k a n show ?thesis by blast
qed


lemma SetGpu_fst: "gpus_' q' = gpus_' q \<Longrightarrow> fst (SetGpu eng q') = fst (SetGpu eng q)"
  by (simp add: SetGpu_def split: sum.splits)

lemma RunForwardBatches_succeeds:
  assumes "0 < iterations"
    and "\<forall>r \<in> set (forward_results eng (nat iterations) net). length (concat r) = L"
    and "0 \<le> sn" and "nat sn < L"
  shows "\<exists>a. fst (RunForwardBatches eng iterations net do_stats sn q) = Inr a"
proof -
  from assms(1) obtain n where n: "nat iterations = Suc n" by (cases "nat iterations") auto
  from batches_loop_scores[OF assms(2)[unfolded n], of do_stats q] obtain ts where
    "fst (batches_loop eng do_stats (Suc n) 0 net q []) = Inr ts" "length ts = L"
    by blast
  with assms(3,4) show ?thesis
    by (cases "batches_loop eng do_stats (Suc n) 0 net q []")
      (simp add: RunForwardBatches_def n vec_at_def)
qed

lemma QuantizeNet_unknown_mode:
  assumes mode: "trimming_mode_' q \<noteq> ''dynamic_fixed_point''"
    and run: "QuantizeNet eng q = (r, q')"
  shows "(\<exists>e. r = Inl e \<and> (\<forall>m. e \<noteq> UnknownTrimmingMode m)) \<or>
    (r = Inl (UnknownTrimmingMode (trimming_mode_' q)) \<and>
     (\<exists>d. trace q' = trace q @
        [WriteProbed (model_quantized_' q), DeviceSet d, NetCreated (FromFile (model_' q)),
         WeightsCopied (weights_' q)] @
        concat (replicate (nat (iterations_' q)) [ForwardPass, RangeQueried]) @ [NetDeleted]))"
proof -
  obtain r1 q1 where c: "CheckWritePermissions eng (model_quantized_' q) q = (r1, q1)"
    by (cases "CheckWritePermissions eng (model_quantized_' q) q")
  obtain r2 q2 where g: "SetGpu eng q1 = (r2, q2)" by (cases "SetGpu eng q1")
  define q3 where "q3 = q2\<lparr>trace := trace q2 @
      [NetCreated (FromFile (model_' q2)), WeightsCopied (weights_' q2)]\<rparr>"
  define net_val where
    "net_val = CopyTrainedLayersFrom eng (new_Net_from_file eng (model_' q2)) (weights_' q2)"
  obtain r3 net' q4 where
    b: "RunForwardBatches eng (iterations_' q3) net_val True default_score_number q3 = (r3, net', q4)"
    using prod_cases3 by blast
  from CheckWritePermissions_state[OF c] show ?thesis
  proof
    assume "r1 = Inl MissingWritePermissions \<and> \<not> probe_good eng (model_quantized_' q) \<and> q1 = q"
    with run c show ?thesis by (auto simp: QuantizeNet_def)
  next
    assume 1: "r1 = Inr () \<and> probe_good eng (model_quantized_' q) \<and>
      q1 = q\<lparr>trace := trace q @ [WriteProbed (model_quantized_' q)]\<rparr>"
    from SetGpu_state[OF g] show ?thesis
    proof
      assume "\<exists>e. r2 = Inl e \<and> (e = NoGpu \<or> (\<exists>s. e = BadLexicalCast s)) \<and> q2 = q1"
      with run c g 1 show ?thesis by (auto simp: QuantizeNet_def)
    next
      assume "\<exists>d. r2 = Inr () \<and> q2 = q1\<lparr>trace := trace q1 @ [DeviceSet d]\<rparr>"
      then obtain d where 2: "r2 = Inr ()" "q2 = q1\<lparr>trace := trace q1 @ [DeviceSet d]\<rparr>"
        by blast
      from 1 2 have q3: "q3 = q\<lparr>trace := trace q @
          [WriteProbed (model_quantized_' q), DeviceSet d, NetCreated (FromFile (model_' q)),
           WeightsCopied (weights_' q)]\<rparr>"
        by (simp add: q3_def)
      from RunForwardBatches_state[OF b] obtain k na mi mo mp where
        k: "k \<le> nat (iterations_' q3)"
        and q4: "q4 = q3\<lparr>layer_names_' := na, max_in_' := mi, max_out_' := mo,
            max_params_' := mp,
            trace := trace q3 @ concat (replicate k (ForwardPass # (if True then [RangeQueried] else [])))\<rparr>"
        and r3: "case r3 of Inl e \<Rightarrow> \<exists>j. e = OutOfRange j | Inr a \<Rightarrow> k = nat (iterations_' q3)"
        by blast
      show ?thesis
      proof (cases r3)
        case (Inl e)
        with r3 run c g 1 2 b show ?thesis
          by (auto simp: QuantizeNet_def Let_def q3_def net_val_def)
      next
        case (Inr a)
        with r3 have kk: "k = nat (iterations_' q)" by (simp add: q3)
        from Inr run c g 1 2 b mode have "r = Inl (UnknownTrimmingMode (trimming_mode_' q))"
          and "q' = q4\<lparr>test_score_baseline_' := Some a, trace := trace q4 @ [NetDeleted]\<rparr>"
          by (auto simp: QuantizeNet_def Let_def q3_def net_val_def q4 split: if_splits)
        then show ?thesis unfolding q4 q3 kk by simp
      qed
    qed
  qed
qed


lemma QuantizeNet_unknown_mode_reported:
  assumes mode: "trimming_mode_' q \<noteq> ''dynamic_fixed_point''"
    and probe: "probe_good eng (model_quantized_' q)"
    and gpu: "fst (SetGpu eng q) = Inr ()"
    and iters: "0 < iterations_' q"
    and shape: "\<forall>r \<in> set (forward_results eng (nat (iterations_' q))
        (CopyTrainedLayersFrom eng (new_Net_from_file eng (model_' q)) (weights_' q))).
        length (concat r) = L"
    and L: "0 < L"
  shows "fst (QuantizeNet eng q) = Inl (UnknownTrimmingMode (trimming_mode_' q))"
proof -
  define q1 where "q1 = q\<lparr>trace := trace q @ [WriteProbed (model_quantized_' q)]\<rparr>"
  from probe have c: "CheckWritePermissions eng (model_quantized_' q) q = (Inr (), q1)"
    by (simp add: CheckWritePermissions_def q1_def)
  have "fst (SetGpu eng q1) = Inr ()" using gpu SetGpu_fst[of q1 q eng] by (simp add: q1_def)
  then obtain q2 where g: "SetGpu eng q1 = (Inr (), q2)" by (cases "SetGpu eng q1") simp
  from SetGpu_state[OF g] obtain d where q2: "q2 = q1\<lparr>trace := trace q1 @ [DeviceSet d]\<rparr>"
    by auto
  define q3 where "q3 = q2\<lparr>trace := trace q2 @
      [NetCreated (FromFile (model_' q2)), WeightsCopied (weights_' q2)]\<rparr>"
  define net_val where
    "net_val = CopyTrainedLayersFrom eng (new_Net_from_file eng (model_' q2)) (weights_' q2)"
  have same: "iterations_' q3 = iterations_' q" "trimming_mode_' q3 = trimming_mode_' q"
    "net_val = CopyTrainedLayersFrom eng (new_Net_from_file eng (model_' q)) (weights_' q)"
    by (simp_all add: q3_def q2 q1_def net_val_def)
  from RunForwardBatches_succeeds[of "iterations_' q3" eng net_val L default_score_number True q3]
    iters shape L same
  obtain a where "fst (RunForwardBatches eng (iterations_' q3) net_val True
      default_score_number q3) = Inr a"
    by (auto simp: default_score_number_def)
  then obtain net' q4 where
    b: "RunForwardBatches eng (iterations_' q3) net_val True default_score_number q3
          = (Inr a, net', q4)"
    by (cases "RunForwardBatches eng (iterations_' q3) net_val True default_score_number q3")
      simp
  from RunForwardBatches_state[OF b] same(2) have "trimming_mode_' q4 = trimming_mode_' q"
    by auto
  moreover have "iterations_' q3 = iterations_' q2" by (simp add: q3_def)
  ultimately show ?thesis using c g b mode
    by (simp add: QuantizeNet_def Let_def q3_def[symmetric] net_val_def[symmetric])
qed

text \<open>
  Claim C3 says that an unknown trimming mode is reported before any computation. It is
  not: \<^verbatim>\<open>QuantizeNet\<close> compares the mode after the baseline run. With the mode
  \<open>minifloat\<close> and two iterations, the example run loads the network, makes two
  forward passes with statistics collection and only then stops with the fatal error.
\<close>

theorem unknown_trimming_mode_counterexample:
  "trimming_mode_' (example_q\<lparr>trimming_mode_' := ''minifloat''\<rparr>) \<noteq> ''dynamic_fixed_point'' \<and>
   QuantizeNet example_engine (example_q\<lparr>trimming_mode_' := ''minifloat''\<rparr>) =
     (Inl (UnknownTrimmingMode ''minifloat''),
      example_measured\<lparr>trimming_mode_' := ''minifloat'', test_score_baseline_' := Some (1 / 8),
        trace := [WriteProbed ''quantized.prototxt'', DeviceSet CPU,
                  NetCreated (FromFile ''lenet.prototxt''), WeightsCopied ''lenet.caffemodel'',
                  ForwardPass, RangeQueried, ForwardPass, RangeQueried, NetDeleted]\<rparr>) \<and>
   ForwardPass \<in> set (trace (snd (QuantizeNet example_engine
      (example_q\<lparr>trimming_mode_' := ''minifloat''\<rparr>))))"
proof -
  have "QuantizeNet example_engine (example_q\<lparr>trimming_mode_' := ''minifloat''\<rparr>) =
     (Inl (UnknownTrimmingMode ''minifloat''),
      example_measured\<lparr>trimming_mode_' := ''minifloat'', test_score_baseline_' := Some (1 / 8),
        trace := [WriteProbed ''quantized.prototxt'', DeviceSet CPU,
                  NetCreated (FromFile ''lenet.prototxt''), WeightsCopied ''lenet.caffemodel'',
                  ForwardPass, RangeQueried, ForwardPass, RangeQueried, NetDeleted]\<rparr>)"
    by (simp add: QuantizeNet_def CheckWritePermissions_def SetGpu_def RunForwardBatches_def
        vec_at_def default_score_number_def example_q_def example_measured_def Quantization_def
        example_engine_def range_in_layers_def eval_nat_numeral Let_def)
  then show ?thesis by (simp add: example_q_def Quantization_def)
qed

text \<open>
  Claim C3, amended: with a trimming mode other than \<open>dynamic_fixed_point\<close> the run
  never completes. The fatal error for the unknown mode is reported only after the write
  probe, the device selection, the creation of the baseline network and all
  \<^verbatim>\<open>iterations_\<close> forward passes, each with its statistics collection; it is reported
  whenever these steps pass, and no candidate network is created before it.
\<close>

theorem unknown_trimming_mode_reported_after_baseline_run:
  assumes "trimming_mode_' q \<noteq> ''dynamic_fixed_point''"
  shows "fst (QuantizeNet eng q) \<noteq> Inr () \<and>
    (\<forall>m. fst (QuantizeNet eng q) = Inl (UnknownTrimmingMode m) \<longrightarrow>
       m = trimming_mode_' q \<and>
       (\<exists>d. trace (snd (QuantizeNet eng q)) = trace q @
          [WriteProbed (model_quantized_' q), DeviceSet d, NetCreated (FromFile (model_' q)),
           WeightsCopied (weights_' q)] @
          concat (replicate (nat (iterations_' q)) [ForwardPass, RangeQueried]) @ [NetDeleted])) \<and>
    (probe_good eng (model_quantized_' q) \<and> fst (SetGpu eng q) = Inr () \<and>
     0 < iterations_' q \<and> 0 < L \<and>
     (\<forall>r \<in> set (forward_results eng (nat (iterations_' q))
        (CopyTrainedLayersFrom eng (new_Net_from_file eng (model_' q)) (weights_' q))).
        length (concat r) = L) \<longrightarrow>
     fst (QuantizeNet eng q) = Inl (UnknownTrimmingMode (trimming_mode_' q)))"
proof -
  obtain r q' where run: "QuantizeNet eng q = (r, q')" by (cases "QuantizeNet eng q")
  from QuantizeNet_unknown_mode[OF assms run] run
  have "fst (QuantizeNet eng q) \<noteq> Inr ()"
    and "\<forall>m. fst (QuantizeNet eng q) = Inl (UnknownTrimmingMode m) \<longrightarrow>
       m = trimming_mode_' q \<and>
       (\<exists>d. trace (snd (QuantizeNet eng q)) = trace q @
          [WriteProbed (model_quantized_' q), DeviceSet d, NetCreated (FromFile (model_' q)),
           WeightsCopied (weights_' q)] @
          concat (replicate (nat (iterations_' q)) [ForwardPass, RangeQueried]) @ [NetDeleted])"
    by auto
  with QuantizeNet_unknown_mode_reported[OF assms, of eng L] show ?thesis by blast
qed

theorem unknown_trimming_mode_reported_after_baseline_run_witness:
  "trimming_mode_' (example_q\<lparr>trimming_mode_' := ''minifloat''\<rparr>) \<noteq> ''dynamic_fixed_point'' \<and>
   probe_good example_engine (model_quantized_' (example_q\<lparr>trimming_mode_' := ''minifloat''\<rparr>)) \<and>
   fst (SetGpu example_engine (example_q\<lparr>trimming_mode_' := ''minifloat''\<rparr>)) = Inr () \<and>
   0 < iterations_' (example_q\<lparr>trimming_mode_' := ''minifloat''\<rparr>) \<and> (0::nat) < 3 \<and>
   map (\<lambda>r. length (concat r)) (forward_results example_engine 2 0) = [3, 3] \<and>
   fst (QuantizeNet example_engine (example_q\<lparr>trimming_mode_' := ''minifloat''\<rparr>))
     = Inl (UnknownTrimmingMode ''minifloat'') \<and>
   fst (QuantizeNet example_engine (example_q\<lparr>trimming_mode_' := ''minifloat''\<rparr>)) \<noteq> Inr () \<and>
   (\<exists>d. trace (snd (QuantizeNet example_engine (example_q\<lparr>trimming_mode_' := ''minifloat''\<rparr>))) =
      [WriteProbed ''quantized.prototxt'', DeviceSet d, NetCreated (FromFile ''lenet.prototxt''),
       WeightsCopied ''lenet.caffemodel'', ForwardPass, RangeQueried, ForwardPass, RangeQueried,
       NetDeleted])"
proof -
  have rs: "forward_results example_engine 2 0 =
      [[[0], [1 / 2, 1 / 8]], [[1 / 4], [1 / 2, 1 / 8]]]"
    by (simp add: example_engine_def eval_nat_numeral)
  have eng: "probe_good example_engine p" "new_Net_from_file example_engine f = 0"
    "CopyTrainedLayersFrom example_engine n w = n" for p f n w
    by (simp_all add: example_engine_def)
  have gpu: "fst (SetGpu example_engine (example_q\<lparr>trimming_mode_' := ''minifloat''\<rparr>)) = Inr ()"
    by (simp add: SetGpu_def example_q_def Quantization_def)
  have q: "trimming_mode_' (example_q\<lparr>trimming_mode_' := ''minifloat''\<rparr>) = ''minifloat''"
    "iterations_' (example_q\<lparr>trimming_mode_' := ''minifloat''\<rparr>) = 2"
    "model_' (example_q\<lparr>trimming_mode_' := ''minifloat''\<rparr>) = ''lenet.prototxt''"
    "weights_' (example_q\<lparr>trimming_mode_' := ''minifloat''\<rparr>) = ''lenet.caffemodel''"
    "model_quantized_' (example_q\<lparr>trimming_mode_' := ''minifloat''\<rparr>) = ''quantized.prototxt''"
    "trace (example_q\<lparr>trimming_mode_' := ''minifloat''\<rparr>) = []"
    by (simp_all add: example_q_def Quantization_def)
  have two: "replicate 2 x = [x, x]" for x :: "event list"
    by (simp add: eval_nat_numeral)
  from unknown_trimming_mode_reported_after_baseline_run[of
      "example_q\<lparr>trimming_mode_' := ''minifloat''\<rparr>" example_engine 3]
  show ?thesis by (auto simp: rs eng gpu q two)
qed

subsection \<open>The candidates\<close>

lemma nets_built_append: "nets_built (xs @ ys) = nets_built xs @ nets_built ys"
  by (induction xs rule: nets_built.induct) simp_all

lemma nets_built_replicate: "nets_built (replicate k ForwardPass) = []"
  by (induction k) simp_all

lemma il_fields:
  "\<exists>a b c. q = q\<lparr>il_in_' := a, il_out_' := b, il_params_' := c\<rparr>"
  "\<exists>a b c. q\<lparr>il_in_' := x\<rparr> = q\<lparr>il_in_' := a, il_out_' := b, il_params_' := c\<rparr>"
  "\<exists>a b c. q\<lparr>il_in_' := x, il_out_' := y\<rparr> = q\<lparr>il_in_' := a, il_out_' := b, il_params_' := c\<rparr>"
  "\<exists>a b c. q\<lparr>il_in_' := x, il_out_' := y, il_params_' := z\<rparr> =
     q\<lparr>il_in_' := a, il_out_' := b, il_params_' := c\<rparr>"
proof -
  show "\<exists>a b c. q = q\<lparr>il_in_' := a, il_out_' := b, il_params_' := c\<rparr>"
    by (rule exI[of _ "il_in_' q"], rule exI[of _ "il_out_' q"], rule exI[of _ "il_params_' q"])
      simp
  show "\<exists>a b c. q\<lparr>il_in_' := x\<rparr> = q\<lparr>il_in_' := a, il_out_' := b, il_params_' := c\<rparr>"
    by (rule exI[of _ x], rule exI[of _ "il_out_' q"], rule exI[of _ "il_params_' q"]) simp
  show "\<exists>a b c. q\<lparr>il_in_' := x, il_out_' := y\<rparr> =
      q\<lparr>il_in_' := a, il_out_' := b, il_params_' := c\<rparr>"
    by (rule exI[of _ x], rule exI[of _ y], rule exI[of _ "il_params_' q"]) simp
  show "\<exists>a b c. q\<lparr>il_in_' := x, il_out_' := y, il_params_' := z\<rparr> =
     q\<lparr>il_in_' := a, il_out_' := b, il_params_' := c\<rparr>"
    by (rule exI[of _ x], rule exI[of _ y], rule exI[of _ z]) simp
qed

lemma push_integer_lengths_state:
  assumes "push_integer_lengths i q = (r, q1)"
  shows "\<exists>a b c. q1 = q\<lparr>il_in_' := a, il_out_' := b, il_params_' := c\<rparr>"
proof -
  have "\<exists>a b c. snd (push_integer_lengths i q) =
      q\<lparr>il_in_' := a, il_out_' := b, il_params_' := c\<rparr>"
    unfolding push_integer_lengths_def Let_def
    by (simp only: il_fields snd_conv split: sum.split) simp
  with assms show ?thesis by simp
qed

lemma integer_lengths_loop_state:
  "integer_lengths_loop is q = (r, q1) \<Longrightarrow>
     \<exists>a b c. q1 = q\<lparr>il_in_' := a, il_out_' := b, il_params_' := c\<rparr>"
proof (induction "is" arbitrary: q)
  case Nil
  then have "q1 = q\<lparr>il_in_' := il_in_' q, il_out_' := il_out_' q, il_params_' := il_params_' q\<rparr>"
    by simp
  then show ?case by blast
next
  case (Cons i "is")
  obtain r0 q0 where p: "push_integer_lengths i q = (r0, q0)"
    by (cases "push_integer_lengths i q")
  from push_integer_lengths_state[OF p] obtain a b c where
    q0: "q0 = q\<lparr>il_in_' := a, il_out_' := b, il_params_' := c\<rparr>" by blast
  show ?case
  proof (cases r0)
    case (Inl e)
    with Cons.prems p q0 show ?thesis by auto
  next
    case (Inr u)
    with Cons.prems p have "integer_lengths_loop is q0 = (r, q1)" by simp
    from Cons.IH[OF this] obtain a' b' c' where
      "q1 = q0\<lparr>il_in_' := a', il_out_' := b', il_params_' := c'\<rparr>" by blast
    then have "q1 = q\<lparr>il_in_' := a', il_out_' := b', il_params_' := c'\<rparr>"
      unfolding q0 by simp
    then show ?thesis by blast
  qed
qed

lemma candidate_state:
  assumes "candidate eng param l2q np bc bf bi bo q = (r, q')"
  shows "\<exists>es. q' = q\<lparr>trace := trace q @ es\<rparr> \<and>
     ((nets_built es = [] \<and> (\<exists>e. r = Inl e)) \<or>
      (\<exists>c. nets_built es = [c] \<and>
         EditNetDescriptionDynamicFixedPoint q
           (set_phase_TEST (ReadNetParamsFromTextFileOrDie eng (model_' q) param))
           l2q np bc bf bi bo = Inr c \<and>
         (\<forall>p a. r = Inr (p, a) \<longrightarrow> p = c)))"
proof (cases "EditNetDescriptionDynamicFixedPoint q
           (set_phase_TEST (ReadNetParamsFromTextFileOrDie eng (model_' q) param))
           l2q np bc bf bi bo")
  case (Inl e)
  with assms have "r = Inl e" "q' = q\<lparr>trace := trace q @ []\<rparr>"
    by (simp_all add: candidate_def)
  then show ?thesis by (intro exI[of _ "[]"]) simp
next
  case (Inr c)
  define q1 where "q1 = q\<lparr>trace := trace q @
      [NetCreated (FromParam c), WeightsCopied (weights_' q)]\<rparr>"
  define net where "net = CopyTrainedLayersFrom eng (new_Net_from_param eng c) (weights_' q)"
  obtain r0 net' q2 where b: "RunForwardBatches eng (iterations_' q1) net default_do_stats
      default_score_number q1 = (r0, net', q2)"
    using prod_cases3 by blast
  from RunForwardBatches_state[OF b] obtain k where
    q2: "q2 = q1\<lparr>trace := trace q1 @ replicate k ForwardPass\<rparr>"
    by (auto simp: default_do_stats_def)
  have i: "iterations_' q1 = iterations_' q" by (simp add: q1_def)
  show ?thesis
  proof (cases r0)
    case (Inl e)
    with assms Inr b i have r: "r = Inl e" and "q' = q2"
      by (simp_all add: candidate_def Let_def q1_def[symmetric] net_def[symmetric])
    then have "q' = q\<lparr>trace := trace q @
        (NetCreated (FromParam c) # WeightsCopied (weights_' q) # replicate k ForwardPass)\<rparr>"
      unfolding q2 q1_def by simp
    with Inr r show ?thesis
      by (intro exI[of _ "NetCreated (FromParam c) # WeightsCopied (weights_' q) #
            replicate k ForwardPass"]) (simp add: nets_built_replicate)
  next
    case (Inr a)
    with assms \<open>EditNetDescriptionDynamicFixedPoint q _ l2q np bc bf bi bo = Inr c\<close> b i
    have "r = Inr (c, a)" "q' = q2\<lparr>trace := trace q2 @ [NetDeleted]\<rparr>"
      by (simp_all add: candidate_def Let_def q1_def[symmetric] net_def[symmetric])
    then have "q' = q\<lparr>trace := trace q @
        (NetCreated (FromParam c) # WeightsCopied (weights_' q) # replicate k ForwardPass
          @ [NetDeleted])\<rparr>"
      unfolding q2 q1_def by simp
    with \<open>r = Inr (c, a)\<close>
      \<open>EditNetDescriptionDynamicFixedPoint q _ l2q np bc bf bi bo = Inr c\<close>
    show ?thesis
      by (intro exI[of _ "NetCreated (FromParam c) # WeightsCopied (weights_' q) #
            replicate k ForwardPass @ [NetDeleted]"])
        (simp add: nets_built_replicate nets_built_append)
  qed
qed


lemma fresh_candidates_cong:
  "same_calibration s t \<Longrightarrow> fresh_candidates s b = fresh_candidates t b"
  by (simp add: fresh_candidates_def same_calibration_def
      Edit_cong[of s t])

lemma candidate_stage:
  assumes c: "candidate eng param l2q np bc bf bi bo s = (r, s')"
    and fresh: "\<forall>p. ReadNetParamsFromTextFileOrDie eng (model_' s) p = base"
  shows "same_calibration s' s \<and>
    (\<exists>es. trace s' = trace s @ es \<and>
       ((nets_built es = [] \<and> (\<exists>e. r = Inl e)) \<or>
        (\<exists>c. nets_built es = [c] \<and>
           EditNetDescriptionDynamicFixedPoint s (set_phase_TEST base) l2q np bc bf bi bo
             = Inr c)))"
proof -
  from candidate_state[OF c] fresh obtain es where
    s': "s' = s\<lparr>trace := trace s @ es\<rparr>"
    and d: "(nets_built es = [] \<and> (\<exists>e. r = Inl e)) \<or>
      (\<exists>c. nets_built es = [c] \<and>
         EditNetDescriptionDynamicFixedPoint s (set_phase_TEST base) l2q np bc bf bi bo = Inr c)"
    by auto
  from s' have "same_calibration s' s" "trace s' = trace s @ es"
    by (simp_all add: same_calibration_def)
  with d show ?thesis by blast
qed


lemma extend_built:
  assumes "map Inr (nets_built es) = take (length (nets_built es)) F"
    and "length (nets_built es) = k" and "k < length F"
    and "nets_built es' = [] \<or> (\<exists>c. nets_built es' = [c] \<and> F ! k = Inr c)"
  shows "map Inr (nets_built (es @ es')) = take (length (nets_built (es @ es'))) F"
  using assms by (auto simp: nets_built_append take_Suc_conv_app_nth)

lemma same_calibration_trans:
  "same_calibration s t \<Longrightarrow> same_calibration t u \<Longrightarrow> same_calibration s u"
  by (simp add: same_calibration_def)

lemma Quantize2_built:
  assumes fresh: "\<forall>p. ReadNetParamsFromTextFileOrDie eng (model_' q) p = base"
    and run: "Quantize2DynamicFixedPoint eng q = (r, q')"
  shows "same_calibration q' (q\<lparr>il_in_' := il_in_' q', il_out_' := il_out_' q',
           il_params_' := il_params_' q'\<rparr>) \<and>
    (\<exists>es. trace q' = trace q @ es \<and>
       map Inr (nets_built es) =
         take (length (nets_built es)) (fresh_candidates q' (set_phase_TEST base)) \<and>
       (r = Inr () \<longrightarrow> length (nets_built es) = 4))"
proof -
  let ?b = "set_phase_TEST base"
  obtain r1 q1 where il: "integer_lengths_loop [0..<length (layer_names_' q)] q = (r1, q1)"
    by (cases "integer_lengths_loop [0..<length (layer_names_' q)] q")
  from integer_lengths_loop_state[OF il] obtain a b c where
    q1: "q1 = q\<lparr>il_in_' := a, il_out_' := b, il_params_' := c\<rparr>" by blast
  define F where "F = fresh_candidates q1 ?b"
  have lenF: "length F = 4" by (simp add: F_def fresh_candidates_def)
  have F_nth: "F ! 0 = EditNetDescriptionDynamicFixedPoint s ?b ''Convolution'' ''Parameters''
        (bitwidth_weights_' s) (- 1) (- 1) (- 1)"
    "F ! 1 = EditNetDescriptionDynamicFixedPoint s ?b ''InnerProduct'' ''Parameters''
        (- 1) (bitwidth_weights_' s) (- 1) (- 1)"
    "F ! 2 = EditNetDescriptionDynamicFixedPoint s ?b ''Convolution_and_InnerProduct''
        ''Activations'' (- 1) (- 1) (bitwidth_activations_' s) (bitwidth_activations_' s)"
    "F ! 3 = EditNetDescriptionDynamicFixedPoint s ?b ''Convolution_and_InnerProduct''
        ''Parameters_and_Activations'' (bitwidth_weights_' s) (bitwidth_weights_' s)
        (bitwidth_activations_' s) (bitwidth_activations_' s)"
    if "same_calibration s q1" for s
  proof -
    have "F = fresh_candidates s ?b"
      using fresh_candidates_cong[OF that, of ?b] by (simp add: F_def)
    then show "F ! 0 = EditNetDescriptionDynamicFixedPoint s ?b ''Convolution'' ''Parameters''
        (bitwidth_weights_' s) (- 1) (- 1) (- 1)"
      "F ! 1 = EditNetDescriptionDynamicFixedPoint s ?b ''InnerProduct'' ''Parameters''
        (- 1) (bitwidth_weights_' s) (- 1) (- 1)"
      "F ! 2 = EditNetDescriptionDynamicFixedPoint s ?b ''Convolution_and_InnerProduct''
        ''Activations'' (- 1) (- 1) (bitwidth_activations_' s) (bitwidth_activations_' s)"
      "F ! 3 = EditNetDescriptionDynamicFixedPoint s ?b ''Convolution_and_InnerProduct''
        ''Parameters_and_Activations'' (bitwidth_weights_' s) (bitwidth_weights_' s)
        (bitwidth_activations_' s) (bitwidth_activations_' s)"
      by (simp_all add: fresh_candidates_def)
  qed
  have fin: ?thesis
    if "q' = s" "same_calibration s q1" "trace s = trace q @ es"
      "map Inr (nets_built es) = take (length (nets_built es)) F"
      "r = Inr () \<longrightarrow> length (nets_built es) = 4" for s es
  proof -
    from that(1,2) have "same_calibration q' (q\<lparr>il_in_' := il_in_' q', il_out_' := il_out_' q',
           il_params_' := il_params_' q'\<rparr>)"
      by (simp add: same_calibration_def q1)
    moreover from that(1,2) have "fresh_candidates q' ?b = F"
      by (simp add: F_def fresh_candidates_cong)
    ultimately show ?thesis using that by blast
  qed
  have fr: "\<forall>p. ReadNetParamsFromTextFileOrDie eng (model_' s) p = base"
    if "same_calibration s q1" for s
    using that fresh by (simp add: same_calibration_def q1)
  have s1: "same_calibration q1 q1" by (simp add: same_calibration_def)
  show ?thesis
  proof (cases r1)
    case (Inl e)
    with run il have "q' = q1" "r = Inl e" by (simp_all add: Quantize2DynamicFixedPoint_def)
    then show ?thesis using fin[of q1 "[]"] s1 q1 by simp
  next
    case (Inr u)
    obtain r2 s2 where c1: "candidate eng empty_net_parameter ''Convolution'' ''Parameters''
        (bitwidth_weights_' q1) (- 1) (- 1) (- 1) q1 = (r2, s2)"
      by (cases "candidate eng empty_net_parameter ''Convolution'' ''Parameters''
        (bitwidth_weights_' q1) (- 1) (- 1) (- 1) q1")
    from candidate_stage[OF c1 fr[OF s1]] obtain es1 where
      s2: "same_calibration s2 q1" and t2: "trace s2 = trace q @ es1"
      and d1: "(nets_built es1 = [] \<and> (\<exists>e. r2 = Inl e)) \<or>
        (\<exists>c. nets_built es1 = [c] \<and> F ! 0 = Inr c)"
      using F_nth(1)[OF s1] q1 by auto
    from d1 lenF have b1: "map Inr (nets_built es1) = take (length (nets_built es1)) F"
      by (cases F) auto
    show ?thesis
    proof (cases r2)
      case (Inl e)
      with run il Inr c1 have "q' = s2" "r = Inl e"
        by (simp_all add: Quantize2DynamicFixedPoint_def)
      then show ?thesis using fin[OF _ s2 t2 b1] by simp
    next
      case r2: (Inr pa2)
      obtain param2 accuracy2 where pa2: "pa2 = (param2, accuracy2)" by (cases pa2)
      from d1 r2 have n1: "length (nets_built es1) = 1" by auto
      obtain r3 s3 where c2: "candidate eng param2 ''InnerProduct'' ''Parameters''
          (- 1) (bitwidth_weights_' s2) (- 1) (- 1) s2 = (r3, s3)"
        by (cases "candidate eng param2 ''InnerProduct'' ''Parameters''
          (- 1) (bitwidth_weights_' s2) (- 1) (- 1) s2")
      from candidate_stage[OF c2 fr[OF s2]] obtain es2 where
        s3': "same_calibration s3 s2" and t3': "trace s3 = trace s2 @ es2"
        and d2: "(nets_built es2 = [] \<and> (\<exists>e. r3 = Inl e)) \<or>
          (\<exists>c. nets_built es2 = [c] \<and> F ! 1 = Inr c)"
        using F_nth(2)[OF s2] by auto
      from s3' s2 have s3: "same_calibration s3 q1" by (rule same_calibration_trans)
      from t3' t2 have t3: "trace s3 = trace q @ (es1 @ es2)" by simp
      from d2 have b2: "map Inr (nets_built (es1 @ es2)) =
          take (length (nets_built (es1 @ es2))) F"
        by (intro extend_built[OF b1 n1]) (auto simp: lenF)
      show ?thesis
      proof (cases r3)
        case (Inl e)
        with run il Inr c1 r2 pa2 c2 have "q' = s3" "r = Inl e"
          by (simp_all add: Quantize2DynamicFixedPoint_def)
        then show ?thesis using fin[OF _ s3 t3 b2] by simp
      next
        case r3: (Inr pa3)
        obtain param3 accuracy3 where pa3: "pa3 = (param3, accuracy3)" by (cases pa3)
        from d2 r3 n1 have n2: "length (nets_built (es1 @ es2)) = 2"
          by (auto simp: nets_built_append)
        obtain r4 s4 where c3: "candidate eng param3 ''Convolution_and_InnerProduct''
            ''Activations'' (- 1) (- 1) (bitwidth_activations_' s3)
            (bitwidth_activations_' s3) s3 = (r4, s4)"
          by (cases "candidate eng param3 ''Convolution_and_InnerProduct''
            ''Activations'' (- 1) (- 1) (bitwidth_activations_' s3)
            (bitwidth_activations_' s3) s3")
        from candidate_stage[OF c3 fr[OF s3]] obtain es3 where
          s4': "same_calibration s4 s3" and t4': "trace s4 = trace s3 @ es3"
          and d3: "(nets_built es3 = [] \<and> (\<exists>e. r4 = Inl e)) \<or>
            (\<exists>c. nets_built es3 = [c] \<and> F ! 2 = Inr c)"
          using F_nth(3)[OF s3] by auto
        from s4' s3 have s4: "same_calibration s4 q1" by (rule same_calibration_trans)
        from t4' t3 have t4: "trace s4 = trace q @ ((es1 @ es2) @ es3)" by simp
        from d3 have b3: "map Inr (nets_built ((es1 @ es2) @ es3)) =
            take (length (nets_built ((es1 @ es2) @ es3))) F"
          by (intro extend_built[OF b2 n2]) (auto simp: lenF)
        show ?thesis
        proof (cases r4)
          case (Inl e)
          with run il Inr c1 r2 pa2 c2 r3 pa3 c3 have "q' = s4" "r = Inl e"
            by (simp_all add: Quantize2DynamicFixedPoint_def)
          then show ?thesis using fin[OF _ s4 t4 b3] by simp
        next
          case r4: (Inr pa4)
          obtain param4 accuracy4 where pa4: "pa4 = (param4, accuracy4)" by (cases pa4)
          from d3 r4 n2 have n3: "length (nets_built ((es1 @ es2) @ es3)) = 3"
            by (auto simp: nets_built_append)
          define s5 where "s5 = s4\<lparr>bw_conv_params_' := Some (bitwidth_weights_' s4),
                  bw_fc_params_' := Some (bitwidth_weights_' s4),
                  bw_out_' := Some (bitwidth_activations_' s4),
                  bw_in_' := Some (bitwidth_activations_' s4)\<rparr>"
          have s5: "same_calibration s5 q1" and t5: "trace s5 = trace q @ ((es1 @ es2) @ es3)"
            using s4 t4 by (simp_all add: s5_def same_calibration_def)
          have bw5: "bitwidth_weights_' s5 = bitwidth_weights_' s4"
            "bitwidth_activations_' s5 = bitwidth_activations_' s4"
            by (simp_all add: s5_def)
          obtain r6 s6 where c4: "candidate eng param4 ''Convolution_and_InnerProduct''
              ''Parameters_and_Activations'' (bitwidth_weights_' s4) (bitwidth_weights_' s4)
              (bitwidth_activations_' s4) (bitwidth_activations_' s4) s5 = (r6, s6)"
            by (cases "candidate eng param4 ''Convolution_and_InnerProduct''
              ''Parameters_and_Activations'' (bitwidth_weights_' s4) (bitwidth_weights_' s4)
              (bitwidth_activations_' s4) (bitwidth_activations_' s4) s5")
          from candidate_stage[OF c4 fr[OF s5]] obtain es4 where
            s6': "same_calibration s6 s5" and t6': "trace s6 = trace s5 @ es4"
            and d4: "(nets_built es4 = [] \<and> (\<exists>e. r6 = Inl e)) \<or>
              (\<exists>c. nets_built es4 = [c] \<and> F ! 3 = Inr c)"
            using F_nth(4)[OF s5] bw5 by auto
          from s6' s5 have s6: "same_calibration s6 q1" by (rule same_calibration_trans)
          from t6' t5 have t6: "trace s6 = trace q @ (((es1 @ es2) @ es3) @ es4)" by simp
          from d4 have b4: "map Inr (nets_built (((es1 @ es2) @ es3) @ es4)) =
              take (length (nets_built (((es1 @ es2) @ es3) @ es4))) F"
            by (intro extend_built[OF b3 n3]) (auto simp: lenF)
          show ?thesis
          proof (cases r6)
            case (Inl e)
            with run il Inr c1 r2 pa2 c2 r3 pa3 c3 r4 pa4 c4 have "q' = s6" "r = Inl e"
              by (simp_all add: Quantize2DynamicFixedPoint_def Let_def s5_def[symmetric])
            then show ?thesis using fin[OF _ s6 t6 b4] by simp
          next
            case r6: (Inr pa5)
            obtain param5 accuracy5 where pa5: "pa5 = (param5, accuracy5)" by (cases pa5)
            from d4 r6 n3 have n4: "length (nets_built (((es1 @ es2) @ es3) @ es4)) = 4"
              by (auto simp: nets_built_append)
            define w where "w = DescriptionWritten (release_state param5) (model_quantized_' s6)"
            from run il Inr c1 r2 pa2 c2 r3 pa3 c3 r4 pa4 c4 r6 pa5
            have q': "q' = s6\<lparr>trace := trace s6 @ [w]\<rparr>" and r: "r = Inr ()"
              by (simp_all add: Quantize2DynamicFixedPoint_def Let_def s5_def[symmetric] w_def)
            have s7: "same_calibration (s6\<lparr>trace := trace s6 @ [w]\<rparr>) q1"
              using s6 by (simp add: same_calibration_def)
            have t7: "trace (s6\<lparr>trace := trace s6 @ [w]\<rparr>) =
                trace q @ ((((es1 @ es2) @ es3) @ es4) @ [w])"
              using t6 by simp
            have nb: "nets_built ((((es1 @ es2) @ es3) @ es4) @ [w]) =
                nets_built (((es1 @ es2) @ es3) @ es4)"
              by (simp add: nets_built_append w_def)
            show ?thesis
              using fin[OF q' s7 t7] b4 n4 nb by simp
          qed
        qed
      qed
    qed
  qed
qed

lemma example_il_in:
  "integer_length_in (6 / 5) = Inr 2" "integer_length_in (2 / 5) = Inr 1"
  "integer_length_out (2 / 5) = Inr 1" "integer_length_out (1 / 20) = Inr 1"
proof -
  have s: "spec_integer_length (6 / 5) = 2" "spec_integer_length (2 / 5) = 1"
    "spec_integer_length (1 / 20) = 1"
    using ceiling_log2_eq[of 1 "6 / 5 + 1 / 10 ^ 8 + 1"]
      ceiling_log2_eq[of 0 "2 / 5 + 1 / 10 ^ 8 + 1"]
      ceiling_log2_eq[of 0 "1 / 20 + 1 / 10 ^ 8 + 1"]
    by (simp_all add: spec_integer_length_def)
  show "integer_length_in (6 / 5) = Inr 2" "integer_length_in (2 / 5) = Inr 1"
    "integer_length_out (2 / 5) = Inr 1" "integer_length_out (1 / 20) = Inr 1"
    using integer_length_in_spec(1,2)[of "6 / 5"] integer_length_in_spec(1,2)[of "2 / 5"]
      integer_length_in_spec(1,2)[of "1 / 20"] s
    by simp_all
qed

lemma example_il_params:
  "integer_length_params 4 = Inr 4" "integer_length_params (1 / 2) = Inr 1"
proof -
  have "log 2 (4::real) = 2" using log_pow_cancel[of 2 2] by simp
  moreover have "log 2 (1 / 2 :: real) = - 1" by (simp add: log_divide)
  moreover have "\<lceil>(2::real) + 1 / 10 ^ 8 + 1\<rceil> = 4" "\<lceil>(- 1::real) + 1 / 10 ^ 8 + 1\<rceil> = 1"
    by (simp_all add: ceiling_eq_iff)
  ultimately show "integer_length_params 4 = Inr 4" "integer_length_params (1 / 2) = Inr 1"
    by (simp_all add: integer_length_params_def log2_def in_int_range_def Let_def)
qed

lemma example_integer_lengths:
  "integer_lengths_loop [0..<length (layer_names_' example_measured)] example_measured =
     (Inr (), example_calibrated)"
  by (simp add: example_measured_def example_calibrated_def example_q_def Quantization_def
      upt_rec push_integer_lengths_def vec_at_def example_il_in example_il_params)

lemma example_run_batches:
  "RunForwardBatches example_engine 2 0 False 0 s =
     (Inr (1 / 8), 2, s\<lparr>trace := trace s @ [ForwardPass, ForwardPass]\<rparr>)"
  by (simp add: RunForwardBatches_def vec_at_def example_engine_def eval_nat_numeral Let_def)

lemma example_engine_simps:
  "new_Net_from_param example_engine p = 0"
  "CopyTrainedLayersFrom example_engine n w = n"
  "ReadNetParamsFromTextFileOrDie example_engine f p = example_net"
  by (simp_all add: example_engine_def)

lemma example_calibrated_simps:
  "iterations_' example_calibrated = 2" "model_' example_calibrated = ''lenet.prototxt''"
  "weights_' example_calibrated = ''lenet.caffemodel''"
  "bitwidth_weights_' example_calibrated = 8" "bitwidth_activations_' example_calibrated = 8"
  "trace example_calibrated = []"
  by (simp_all add: example_calibrated_def example_measured_def example_q_def Quantization_def)

lemma example_candidate:
  assumes "EditNetDescriptionDynamicFixedPoint s (set_phase_TEST example_net) l2q np bc bf bi bo
      = Inr c" and "iterations_' s = 2"
  shows "candidate example_engine param l2q np bc bf bi bo s =
     (Inr (c, 1 / 8), s\<lparr>trace := trace s @
        [NetCreated (FromParam c), WeightsCopied (weights_' s), ForwardPass, ForwardPass,
         NetDeleted]\<rparr>)"
  using assms
  by (simp add: candidate_def example_engine_simps default_do_stats_def
      default_score_number_def example_run_batches)

lemma example_stage:
  assumes s: "same_calibration s example_calibrated" and i: "iterations_' s = 2"
    and e: "\<exists>c. EditNetDescriptionDynamicFixedPoint example_calibrated
        (set_phase_TEST example_net) l2q np bc bf bi bo = Inr c"
  shows "\<exists>c s'. candidate example_engine param l2q np bc bf bi bo s = (Inr (c, 1 / 8), s') \<and>
     same_calibration s' example_calibrated \<and> iterations_' s' = 2"
proof -
  from e obtain c where "EditNetDescriptionDynamicFixedPoint example_calibrated
        (set_phase_TEST example_net) l2q np bc bf bi bo = Inr c" by blast
  with s have "EditNetDescriptionDynamicFixedPoint s
        (set_phase_TEST example_net) l2q np bc bf bi bo = Inr c"
    using Edit_cong[of s example_calibrated] by (simp add: same_calibration_def)
  from example_candidate[OF this i, of param] s i show ?thesis
    by (simp add: same_calibration_def)
qed

lemma example_edits:
  "\<exists>c. EditNetDescriptionDynamicFixedPoint example_calibrated (set_phase_TEST example_net)
     ''Convolution'' ''Parameters'' 8 (- 1) (- 1) (- 1) = Inr c"
  "\<exists>c. EditNetDescriptionDynamicFixedPoint example_calibrated (set_phase_TEST example_net)
     ''InnerProduct'' ''Parameters'' (- 1) 8 (- 1) (- 1) = Inr c"
  "\<exists>c. EditNetDescriptionDynamicFixedPoint example_calibrated (set_phase_TEST example_net)
     ''Convolution_and_InnerProduct'' ''Activations'' (- 1) (- 1) 8 8 = Inr c"
  "\<exists>c. EditNetDescriptionDynamicFixedPoint example_calibrated (set_phase_TEST example_net)
     ''Convolution_and_InnerProduct'' ''Parameters_and_Activations'' 8 8 8 8 = Inr c"
  by (simp_all add: set_phase_TEST_def example_net_def example_calibrated_def
      example_measured_def example_q_def Quantization_def edit_defs setters)

lemma example_run:
  "\<exists>q'. Quantize2DynamicFixedPoint example_engine example_measured = (Inr (), q') \<and>
     same_calibration q' example_calibrated"
proof -
  have s1: "same_calibration example_calibrated example_calibrated"
    by (simp add: same_calibration_def)
  have bw: "bitwidth_weights_' s = 8" "bitwidth_activations_' s = 8"
    if "same_calibration s example_calibrated" for s
    using that by (simp_all add: same_calibration_def example_calibrated_simps)
  from example_stage[OF s1 example_calibrated_simps(1) example_edits(1)]
  obtain c1 s2 where k1: "candidate example_engine empty_net_parameter ''Convolution''
      ''Parameters'' 8 (- 1) (- 1) (- 1) example_calibrated = (Inr (c1, 1 / 8), s2)"
    and s2: "same_calibration s2 example_calibrated" "iterations_' s2 = 2" by blast
  from example_stage[OF s2 example_edits(2)]
  obtain c2 s3 where k2: "candidate example_engine c1 ''InnerProduct''
      ''Parameters'' (- 1) 8 (- 1) (- 1) s2 = (Inr (c2, 1 / 8), s3)"
    and s3: "same_calibration s3 example_calibrated" "iterations_' s3 = 2" by blast
  from example_stage[OF s3 example_edits(3)]
  obtain c3 s4 where k3: "candidate example_engine c2 ''Convolution_and_InnerProduct''
      ''Activations'' (- 1) (- 1) 8 8 s3 = (Inr (c3, 1 / 8), s4)"
    and s4: "same_calibration s4 example_calibrated" "iterations_' s4 = 2" by blast
  define s5 where "s5 = s4\<lparr>bw_conv_params_' := Some 8, bw_fc_params_' := Some 8,
      bw_out_' := Some 8, bw_in_' := Some 8\<rparr>"
  from s4 have s5: "same_calibration s5 example_calibrated" "iterations_' s5 = 2"
    by (simp_all add: s5_def same_calibration_def)
  from example_stage[OF s5 example_edits(4)]
  obtain c4 s6 where k4: "candidate example_engine c3 ''Convolution_and_InnerProduct''
      ''Parameters_and_Activations'' 8 8 8 8 s5 = (Inr (c4, 1 / 8), s6)"
    and s6: "same_calibration s6 example_calibrated" "iterations_' s6 = 2" by blast
  have "Quantize2DynamicFixedPoint example_engine example_measured =
      (Inr (), s6\<lparr>trace := trace s6 @
         [DescriptionWritten (release_state c4) (model_quantized_' s6)]\<rparr>)"
    by (simp add: Quantize2DynamicFixedPoint_def example_integer_lengths
        example_calibrated_simps k1 bw[OF s2(1)] k2 bw[OF s3(1)] k3 bw[OF s4(1)]
        s5_def[symmetric] k4)
  moreover have "same_calibration (s6\<lparr>trace := trace s6 @
         [DescriptionWritten (release_state c4) (model_quantized_' s6)]\<rparr>) example_calibrated"
    using s6 by (simp add: same_calibration_def)
  ultimately show ?thesis by blast
qed

lemma Edit_unselected_layer:
  assumes "EditNetDescriptionDynamicFixedPoint q param l2q np bc bf bi bo = Inr c"
    and "i < length (layer param)"
    and "\<not> conv_selected l2q (type (layer param ! i))"
    and "\<not> fc_selected l2q (type (layer param ! i))"
  shows "layer c ! i = layer param ! i"
proof -
  from assms(1) obtain ls where ls: "edit_layers q l2q np bc bf bi bo (layer param) = Inr ls"
    and c: "c = param\<lparr>layer := ls\<rparr>" by (auto simp: Edit_Inr)
  from ls assms(2) have "edit_layer q l2q np bc bf bi bo (layer param ! i) = Inr (ls ! i)"
    by (simp add: edit_layers_Inr)
  with assms(3,4) c show ?thesis by (simp add: edit_layer_unselected)
qed

lemma quantize_layer_keeps_parameters:
  assumes "\<not> contains np ''Parameters''" "quantize_layer q np ty bw bi bo l = Inr l'"
  shows "fl_params (mutable_quantization_param l') = fl_params (mutable_quantization_param l) \<and>
    bw_params (mutable_quantization_param l') = bw_params (mutable_quantization_param l)"
  using assms
  by (auto simp: quantize_layer_def quantize_activations_Inr setters split: if_splits)

lemma Edit_keeps_parameters:
  assumes "\<not> contains np ''Parameters''"
    and "EditNetDescriptionDynamicFixedPoint q param l2q np bc bf bi bo = Inr c"
    and "i < length (layer param)"
  shows "fl_params (mutable_quantization_param (layer c ! i)) =
      fl_params (mutable_quantization_param (layer param ! i)) \<and>
    bw_params (mutable_quantization_param (layer c ! i)) =
      bw_params (mutable_quantization_param (layer param ! i))"
proof -
  from assms(2) obtain ls where ls: "edit_layers q l2q np bc bf bi bo (layer param) = Inr ls"
    and c: "c = param\<lparr>layer := ls\<rparr>" by (auto simp: Edit_Inr)
  from ls assms(3) have el: "edit_layer q l2q np bc bf bi bo (layer param ! i) = Inr (ls ! i)"
    by (simp add: edit_layers_Inr)
  have "fl_params (mutable_quantization_param (ls ! i)) =
      fl_params (mutable_quantization_param (layer param ! i)) \<and>
    bw_params (mutable_quantization_param (ls ! i)) =
      bw_params (mutable_quantization_param (layer param ! i))"
  proof (cases rule: edit_layer_cases[where q=q and l="layer param ! i" and np=np
        and ?l2q.0=l2q and bc=bc and bf=bf and bi=bi and bo=bo])
    case none with el show ?thesis by simp
  next
    case unselected with el show ?thesis by simp
  next
    case conv with el quantize_layer_keeps_parameters[OF assms(1)] show ?thesis by simp
  next
    case fc with el quantize_layer_keeps_parameters[OF assms(1)] show ?thesis by simp
  qed
  with c show ?thesis by simp
qed

text \<open>
  Claim C7: provided that reading the model file replaces whatever \<^verbatim>\<open>param\<close> held,
  the descriptions from which \<^verbatim>\<open>Quantize2DynamicFixedPoint\<close> creates networks are, in
  order, the edits of the reloaded base description (with its phase set) for the
  convolution parameters, the inner product parameters, the activations and all of them
  together; a run that completes creates the four of them. In the convolution candidate
  every layer whose type does not name \<open>Convolution\<close> is the base layer; in the inner
  product candidate every layer whose type names neither \<open>InnerProduct\<close> nor
  \<open>FcRistretto\<close>, so every convolution layer, is the base layer; in the activations
  candidate the bit-width and the fractional length of the parameters of every layer are
  those of the base.
\<close>

theorem candidates_are_edits_of_the_reloaded_description:
  assumes "\<forall>param. ReadNetParamsFromTextFileOrDie eng (model_' q) param = base"
  shows "\<exists>r q' es. Quantize2DynamicFixedPoint eng q = (r, q') \<and> trace q' = trace q @ es \<and>
     map Inr (nets_built es) =
       take (length (nets_built es)) (fresh_candidates q' (set_phase_TEST base)) \<and>
     (r = Inr () \<longrightarrow> length (nets_built es) = 4) \<and>
     (\<forall>c i. fresh_candidates q' (set_phase_TEST base) ! 0 = Inr c \<and> i < length (layer base) \<and>
        \<not> contains (type (layer base ! i)) ''Convolution'' \<longrightarrow> layer c ! i = layer base ! i) \<and>
     (\<forall>c i. fresh_candidates q' (set_phase_TEST base) ! 1 = Inr c \<and> i < length (layer base) \<and>
        \<not> contains (type (layer base ! i)) ''InnerProduct'' \<and>
        \<not> contains (type (layer base ! i)) ''FcRistretto'' \<longrightarrow> layer c ! i = layer base ! i) \<and>
     (\<forall>c i. fresh_candidates q' (set_phase_TEST base) ! 2 = Inr c \<and> i < length (layer base) \<longrightarrow>
        fl_params (mutable_quantization_param (layer c ! i)) =
          fl_params (mutable_quantization_param (layer base ! i)) \<and>
        bw_params (mutable_quantization_param (layer c ! i)) =
          bw_params (mutable_quantization_param (layer base ! i)))"
proof -
  obtain r q' where run: "Quantize2DynamicFixedPoint eng q = (r, q')"
    by (cases "Quantize2DynamicFixedPoint eng q")
  from Quantize2_built[OF assms run] obtain es where
    1: "trace q' = trace q @ es"
    "map Inr (nets_built es) =
       take (length (nets_built es)) (fresh_candidates q' (set_phase_TEST base))"
    "r = Inr () \<longrightarrow> length (nets_built es) = 4"
    by blast
  have l: "layer (set_phase_TEST base) = layer base" by (simp add: set_phase_TEST_def)
  have 2: "layer c ! i = layer base ! i"
    if "fresh_candidates q' (set_phase_TEST base) ! 0 = Inr c" "i < length (layer base)"
      "\<not> contains (type (layer base ! i)) ''Convolution''" for c i
    using that Edit_unselected_layer[of q' "set_phase_TEST base" "''Convolution''"
        "''Parameters''" _ _ _ _ c i]
    by (simp add: fresh_candidates_def l conv_selected_def fc_selected_def)
  have 3: "layer c ! i = layer base ! i"
    if "fresh_candidates q' (set_phase_TEST base) ! 1 = Inr c" "i < length (layer base)"
      "\<not> contains (type (layer base ! i)) ''InnerProduct''"
      "\<not> contains (type (layer base ! i)) ''FcRistretto''" for c i
    using that Edit_unselected_layer[of q' "set_phase_TEST base" "''InnerProduct''"
        "''Parameters''" _ _ _ _ c i]
    by (simp add: fresh_candidates_def l conv_selected_def fc_selected_def)
  have 4: "fl_params (mutable_quantization_param (layer c ! i)) =
          fl_params (mutable_quantization_param (layer base ! i)) \<and>
        bw_params (mutable_quantization_param (layer c ! i)) =
          bw_params (mutable_quantization_param (layer base ! i))"
    if "fresh_candidates q' (set_phase_TEST base) ! 2 = Inr c" "i < length (layer base)" for c i
    using that Edit_keeps_parameters[of "''Activations''" q' "set_phase_TEST base"
        "''Convolution_and_InnerProduct''" _ _ _ _ c i]
    by (simp add: fresh_candidates_def l)
  from 2 have A: "\<forall>c i. fresh_candidates q' (set_phase_TEST base) ! 0 = Inr c \<and>
        i < length (layer base) \<and>
        \<not> contains (type (layer base ! i)) ''Convolution'' \<longrightarrow> layer c ! i = layer base ! i"
    by blast
  from 3 have B: "\<forall>c i. fresh_candidates q' (set_phase_TEST base) ! 1 = Inr c \<and>
        i < length (layer base) \<and>
        \<not> contains (type (layer base ! i)) ''InnerProduct'' \<and>
        \<not> contains (type (layer base ! i)) ''FcRistretto'' \<longrightarrow> layer c ! i = layer base ! i"
    by blast
  from 4 have C: "\<forall>c i. fresh_candidates q' (set_phase_TEST base) ! 2 = Inr c \<and>
        i < length (layer base) \<longrightarrow>
        fl_params (mutable_quantization_param (layer c ! i)) =
          fl_params (mutable_quantization_param (layer base ! i)) \<and>
        bw_params (mutable_quantization_param (layer c ! i)) =
          bw_params (mutable_quantization_param (layer base ! i))"
    by blast
  show ?thesis
    apply (rule exI[of _ r], rule exI[of _ q'], rule exI[of _ es])
    apply (intro conjI)
          apply (rule run, rule 1(1), rule 1(2), rule 1(3), rule A, rule B, rule C)
    done
qed

theorem candidates_are_edits_of_the_reloaded_description_witness:
  "(\<forall>param. ReadNetParamsFromTextFileOrDie example_engine (model_' example_measured) param
      = example_net) \<and>
   fst (Quantize2DynamicFixedPoint example_engine example_measured) = Inr () \<and>
   length (nets_built (trace (snd (Quantize2DynamicFixedPoint example_engine example_measured))))
     = 4 \<and>
   map Inr (nets_built (trace (snd (Quantize2DynamicFixedPoint example_engine example_measured))))
     = fresh_candidates example_calibrated (set_phase_TEST example_net) \<and>
   (0::nat) < length (layer example_net) \<and>
   \<not> contains (type (layer example_net ! 0)) ''InnerProduct'' \<and>
   \<not> contains (type (layer example_net ! 0)) ''FcRistretto'' \<and>
   layer (nets_built (trace (snd (Quantize2DynamicFixedPoint example_engine example_measured)))
            ! 1) ! 0 = layer example_net ! 0"
proof -
  have fresh: "\<forall>param. ReadNetParamsFromTextFileOrDie example_engine
      (model_' example_measured) param = example_net"
    by (simp add: example_engine_def)
  from example_run obtain q0 where
    run: "Quantize2DynamicFixedPoint example_engine example_measured = (Inr (), q0)"
    and same: "same_calibration q0 example_calibrated" by blast
  obtain r q1 es where a: "Quantize2DynamicFixedPoint example_engine example_measured = (r, q1)"
    and b: "trace q1 = trace example_measured @ es"
    and c: "map Inr (nets_built es) =
       take (length (nets_built es)) (fresh_candidates q1 (set_phase_TEST example_net))"
    and d: "r = Inr () \<longrightarrow> length (nets_built es) = 4"
    and fc: "\<forall>c i. fresh_candidates q1 (set_phase_TEST example_net) ! 1 = Inr c \<and>
        i < length (layer example_net) \<and>
        \<not> contains (type (layer example_net ! i)) ''InnerProduct'' \<and>
        \<not> contains (type (layer example_net ! i)) ''FcRistretto'' \<longrightarrow>
        layer c ! i = layer example_net ! i"
    using candidates_are_edits_of_the_reloaded_description[OF fresh]
    by (elim exE conjE) (rule that; assumption)
  from a run have r: "r = Inr ()" and q1: "q1 = q0" by simp_all
  have t: "trace example_measured = []"
    by (simp add: example_measured_def example_q_def Quantization_def)
  have f: "fresh_candidates q0 (set_phase_TEST example_net) =
      fresh_candidates example_calibrated (set_phase_TEST example_net)"
    using same by (rule fresh_candidates_cong)
  have l: "length (fresh_candidates example_calibrated (set_phase_TEST example_net)) = 4"
    by (simp add: fresh_candidates_def)
  from d r have n: "length (nets_built es) = 4" by simp
  from b t q1 have es: "trace q0 = es" by simp
  from c n f l q1 have m: "map Inr (nets_built es) =
      fresh_candidates example_calibrated (set_phase_TEST example_net)" by simp
  have conv: "(0::nat) < length (layer example_net)"
    "\<not> contains (type (layer example_net ! 0)) ''InnerProduct''"
    "\<not> contains (type (layer example_net ! 0)) ''FcRistretto''"
    by (simp_all add: example_net_def)
  from n have "map Inr (nets_built es) ! 1 = Inr (nets_built es ! 1)" by simp
  then have "fresh_candidates example_calibrated (set_phase_TEST example_net) ! 1 =
      Inr (nets_built es ! 1)"
    by (simp only: m[symmetric])
  then have "fresh_candidates q1 (set_phase_TEST example_net) ! 1 = Inr (nets_built es ! 1)"
    by (simp only: q1 f)
  with fc conv have "layer (nets_built es ! 1) ! 0 = layer example_net ! 0" by blast
  with fresh run es n m conv show ?thesis by simp
qed

end
